theory Spec2Isabelle
  imports Complex_Main
begin

section \<open>Data model\<close>

text \<open>
  The tables of \<^verbatim>\<open>config/postgres.js\<close> that the attendance logic of
  \<^verbatim>\<open>server.js\<close> reads and writes. A \<^verbatim>\<open>DATE\<close> is the number of days since
  1970-01-01, a \<^verbatim>\<open>TIME\<close> the number of seconds since midnight. Nullable columns
  are options. The surrogate key \<^verbatim>\<open>attendance.id\<close> and the \<^verbatim>\<open>created_at\<close>
  columns are written once by the insert and read by no statement modelled here,
  so they are left out; a table is a list of rows, so equal rows stay distinct.
\<close>

type_synonym date = int
type_synonym time = nat

record timetable_period =
  tp_id :: int
  tp_class_id :: int
  tp_day_of_week :: int
  tp_period_number :: int
  tp_start_time :: time
  tp_end_time :: time
  tp_subject_id :: "int option"
  tp_teacher_id :: "int option"
  tp_is_break :: bool

record attendance =
  a_student_id :: int
  a_class_id :: "int option"
  a_period_id :: "int option"
  a_date :: date
  a_status :: string
  a_marked_by :: "int option"

record student =
  s_id :: int
  s_roll_no :: int
  s_class_id :: int
  s_student_name :: string

record db =
  students :: "student list"
  timetable_periods :: "timetable_period list"
  attendance_tbl :: "attendance list"

datatype error = NoActivePeriod | NotFound | AccessDenied | StorageError

section \<open>Time Resolver\<close>

text \<open>
  \<^verbatim>\<open>getNowIST\<close> shifts \<^verbatim>\<open>Date.now()\<close> (milliseconds since the epoch) by
  5.5 hours and by \<^verbatim>\<open>TIME_OFFSET_MINUTES\<close>; the UTC getters then read the shifted
  value: \<^verbatim>\<open>getUTCDay\<close> is (day number + 4) mod 7, 0 for Sunday.
\<close>

definition getNowIST :: "int \<Rightarrow> int \<Rightarrow> int" where
  "getNowIST offset_minutes now_ms = now_ms + 19800000 + offset_minutes * 60000"

definition getUTCDay :: "int \<Rightarrow> int" where
  "getUTCDay t = (t div 86400000 + 4) mod 7"

definition getCurrentDayOfWeek :: "int \<Rightarrow> int \<Rightarrow> int" where
  "getCurrentDayOfWeek offset_minutes now_ms =
     (let dayOfWeek = getUTCDay (getNowIST offset_minutes now_ms)
      in if dayOfWeek = 0 then 7 else dayOfWeek)"

text \<open>The string \<^verbatim>\<open>HH:MM\<close>, as the \<^verbatim>\<open>TIME\<close> the query compares it with.\<close>

definition getCurrentTime :: "int \<Rightarrow> int \<Rightarrow> time" where
  "getCurrentTime offset_minutes now_ms =
     (let ist = getNowIST offset_minutes now_ms;
          hours = (ist div 3600000) mod 24;
          minutes = (ist div 60000) mod 60
      in nat (hours * 3600 + minutes * 60))"

section \<open>Period Matcher\<close>

text \<open>\<^verbatim>\<open>queryOne\<close>: the first row of the result, or null.\<close>

definition queryOne :: "'a list \<Rightarrow> 'a option" where
  "queryOne rows = (case rows of [] \<Rightarrow> None | r # _ \<Rightarrow> Some r)"

text \<open>
  The current-period query of \<^verbatim>\<open>POST /teacher/mark-attendance\<close>. A comparison with
  a null \<^verbatim>\<open>teacher_id\<close> is not true, so such a row is not selected.
\<close>

definition teacher_period_where :: "int \<Rightarrow> int \<Rightarrow> int \<Rightarrow> time \<Rightarrow> timetable_period \<Rightarrow> bool" where
  "teacher_period_where classId teacherId currentDay currentTime tp \<longleftrightarrow>
     tp_class_id tp = classId
     \<and> tp_teacher_id tp = Some teacherId
     \<and> tp_day_of_week tp = currentDay
     \<and> tp_start_time tp \<le> currentTime
     \<and> tp_end_time tp \<ge> currentTime
     \<and> tp_is_break tp = False"

definition teacherCurrentPeriod ::
  "timetable_period list \<Rightarrow> int \<Rightarrow> int \<Rightarrow> int \<Rightarrow> time \<Rightarrow> timetable_period option" where
  "teacherCurrentPeriod tps classId teacherId currentDay currentTime =
     queryOne (sort_key tp_period_number
       (filter (teacher_period_where classId teacherId currentDay currentTime) tps))"




text \<open>
  The authorisation query shared by the history, report and bulk-update handlers:
  some non-break period of the class is taught by the teacher.
\<close>

definition teacherAssignment :: "timetable_period list \<Rightarrow> int \<Rightarrow> int \<Rightarrow> int option" where
  "teacherAssignment tps classId teacherId =
     queryOne (remdups (map tp_id
       (filter (\<lambda>tp. tp_class_id tp = classId \<and> tp_teacher_id tp = Some teacherId
                     \<and> tp_is_break tp = False) tps)))"

section \<open>Attendance Recorder\<close>

record mark_request =
  mr_studentId :: int
  mr_classId :: int
  mr_status :: string
  mr_date :: date

text \<open>\<^verbatim>\<open>status VARCHAR(1) NOT NULL CHECK(status IN ('P', 'A'))\<close>.\<close>

definition status_check :: "string \<Rightarrow> bool" where
  "status_check s \<longleftrightarrow> s = ''P'' \<or> s = ''A''"

text \<open>\<^verbatim>\<open>student_id INTEGER REFERENCES students(id)\<close>.\<close>

definition student_fk :: "db \<Rightarrow> int \<Rightarrow> bool" where
  "student_fk d studentId \<longleftrightarrow> (\<exists>s \<in> set (students d). s_id s = studentId)"

text \<open>The conflict target \<^verbatim>\<open>(student_id, date, period_id)\<close> of the insert, for a
  period id that is not null.\<close>

definition attendance_conflict :: "int \<Rightarrow> date \<Rightarrow> int \<Rightarrow> attendance \<Rightarrow> bool" where
  "attendance_conflict studentId dt periodId a \<longleftrightarrow>
     a_student_id a = studentId \<and> a_date a = dt \<and> a_period_id a = Some periodId"

text \<open>
  \<^verbatim>\<open>INSERT ... ON CONFLICT (student_id, date, period_id) DO UPDATE SET status, marked_by\<close>.
  A statement that violates the check or the foreign key raises, and the handler's
  \<^verbatim>\<open>catch\<close> answers with a failure; the table is then as before.
\<close>

definition upsert_row :: "int \<Rightarrow> date \<Rightarrow> int \<Rightarrow> string \<Rightarrow> int \<Rightarrow> attendance \<Rightarrow> attendance" where
  "upsert_row studentId dt periodId status markedBy a =
     (if attendance_conflict studentId dt periodId a
      then a\<lparr>a_status := status, a_marked_by := Some markedBy\<rparr> else a)"

definition upsert_attendance ::
  "db \<Rightarrow> int \<Rightarrow> int \<Rightarrow> int \<Rightarrow> date \<Rightarrow> string \<Rightarrow> int \<Rightarrow> error + db" where
  "upsert_attendance d studentId classId periodId dt status markedBy =
     (if \<exists>a \<in> set (attendance_tbl d). attendance_conflict studentId dt periodId a
      then (if status_check status
            then Inr (d\<lparr>attendance_tbl :=
                   map (upsert_row studentId dt periodId status markedBy) (attendance_tbl d)\<rparr>)
            else Inl StorageError)
      else (if status_check status \<and> student_fk d studentId
            then Inr (d\<lparr>attendance_tbl := attendance_tbl d @
                   [\<lparr>a_student_id = studentId, a_class_id = Some classId,
                     a_period_id = Some periodId, a_date = dt, a_status = status,
                     a_marked_by = Some markedBy\<rparr>]\<rparr>)
            else Inl StorageError))"

text \<open>
  \<^verbatim>\<open>POST /teacher/mark-attendance\<close>. The arguments are \<^verbatim>\<open>TIME_OFFSET_MINUTES\<close>,
  \<^verbatim>\<open>Date.now()\<close> at the call, the session user's id and the request body.
\<close>

definition mark_attendance ::
  "int \<Rightarrow> int \<Rightarrow> int \<Rightarrow> mark_request \<Rightarrow> db \<Rightarrow> (error + unit) \<times> db" where
  "mark_attendance offset_minutes now_ms userId req d =
     (case teacherCurrentPeriod (timetable_periods d) (mr_classId req) userId
             (getCurrentDayOfWeek offset_minutes now_ms) (getCurrentTime offset_minutes now_ms) of
        None \<Rightarrow> (Inl NoActivePeriod, d)
      | Some currentPeriod \<Rightarrow>
          (case upsert_attendance d (mr_studentId req) (mr_classId req) (tp_id currentPeriod)
                  (mr_date req) (mr_status req) userId of
             Inl e \<Rightarrow> (Inl e, d)
           | Inr d' \<Rightarrow> (Inr (), d')))"

text \<open>The constraint \<^verbatim>\<open>attendance_student_date_period_unique\<close>: it binds only the rows
  whose period is not null.\<close>

definition attendance_unique :: "attendance list \<Rightarrow> bool" where
  "attendance_unique rows \<longleftrightarrow>
     distinct (map (\<lambda>a. (a_student_id a, a_date a, a_period_id a))
                   (filter (\<lambda>a. a_period_id a \<noteq> None) rows))"

section \<open>Deleting a timetable period\<close>

text \<open>
  \<^verbatim>\<open>DELETE /api/timetable/period/:periodId\<close>: 404 when the period is absent, else
  the delete of the period row, which \<^verbatim>\<open>attendance_period_id_fkey\<close>
  (\<^verbatim>\<open>ON DELETE CASCADE\<close>) extends to the attendance rows that reference it. The
  answer carries the number of those rows.
\<close>

definition delete_period :: "int \<Rightarrow> db \<Rightarrow> (error + nat) \<times> db" where
  "delete_period periodId d =
     (case queryOne (filter (\<lambda>tp. tp_id tp = periodId) (timetable_periods d)) of
        None \<Rightarrow> (Inl NotFound, d)
      | Some periodDetails \<Rightarrow>
          (let attendanceCount =
                 length (filter (\<lambda>a. a_period_id a = Some periodId) (attendance_tbl d))
           in (Inr attendanceCount,
               d\<lparr>timetable_periods := filter (\<lambda>tp. tp_id tp \<noteq> periodId) (timetable_periods d),
                 attendance_tbl := filter (\<lambda>a. a_period_id a \<noteq> Some periodId) (attendance_tbl d)\<rparr>)))"

section \<open>Bulk historical edit\<close>






section \<open>Report Aggregator\<close>

text \<open>\<^verbatim>\<open>xs LEFT JOIN ys ON on\<close>: a row of \<open>xs\<close> without a partner is kept, with nulls.\<close>

definition left_join_row :: "('a \<Rightarrow> 'b \<Rightarrow> bool) \<Rightarrow> 'a \<Rightarrow> 'b list \<Rightarrow> ('a \<times> 'b option) list" where
  "left_join_row on x ys =
     (let ms = filter (on x) ys
      in if ms = [] then [(x, None)] else map (\<lambda>y. (x, Some y)) ms)"

definition left_join :: "('a \<Rightarrow> 'b \<Rightarrow> bool) \<Rightarrow> 'a list \<Rightarrow> 'b list \<Rightarrow> ('a \<times> 'b option) list" where
  "left_join on xs ys = concat (map (\<lambda>x. left_join_row on x ys) xs)"

type_synonym report_join_row = "(student \<times> attendance option) \<times> timetable_period option"

text \<open>
  \<^verbatim>\<open>FROM students s LEFT JOIN attendance a ON s.id = a.student_id
  LEFT JOIN timetable_periods tp ON a.period_id = tp.id\<close>
\<close>

definition report_from :: "db \<Rightarrow> report_join_row list" where
  "report_from d =
     left_join (\<lambda>sa tp. case snd sa of None \<Rightarrow> False
                                      | Some a \<Rightarrow> a_period_id a = Some (tp_id tp))
       (left_join (\<lambda>s a. s_id s = a_student_id a) (students d) (attendance_tbl d))
       (timetable_periods d)"

text \<open>
  \<^verbatim>\<open>WHERE s.class_id = $1 AND (tp.teacher_id = $2 OR a.id IS NULL)\<close>, and with a
  date bound \<^verbatim>\<open>AND (a.id IS NULL OR a.date >= $3)\<close>. A row passes when the
  condition is true: \<^verbatim>\<open>tp.teacher_id = $2\<close> is null, not true, when the row has no
  period or the period has no teacher. \<^verbatim>\<open>a.id IS NULL\<close> holds on the row of a student
  without any attendance.
\<close>

definition report_where :: "int \<Rightarrow> int \<Rightarrow> date option \<Rightarrow> report_join_row \<Rightarrow> bool" where
  "report_where classId teacherId bound row =
     (case row of ((s, ao), tpo) \<Rightarrow>
        s_class_id s = classId
        \<and> ((case tpo of None \<Rightarrow> False | Some tp \<Rightarrow> tp_teacher_id tp = Some teacherId)
             \<or> ao = None)
        \<and> (case bound of
              None \<Rightarrow> True
            | Some b \<Rightarrow> (case ao of None \<Rightarrow> True | Some a \<Rightarrow> a_date a \<ge> b)))"

text \<open>The \<^verbatim>\<open>switch(period)\<close>: the UTC date of seven or thirty days before now.\<close>

definition report_date_bound :: "string \<Rightarrow> int \<Rightarrow> date option" where
  "report_date_bound period now_ms =
     (if period = ''week'' then Some ((now_ms - 7 * 24 * 60 * 60 * 1000) div 86400000)
      else if period = ''month'' then Some ((now_ms - 30 * 24 * 60 * 60 * 1000) div 86400000)
      else None)"

record report_row =
  r_roll_no :: int
  r_student_name :: string
  r_total_days :: nat
  r_present_days :: nat
  r_absent_days :: nat
  r_attendance_percentage :: "rat option"

text \<open>\<^verbatim>\<open>ROUND(x, 2)\<close> on a numeric: to two decimals, a half away from zero.\<close>

definition round2 :: "rat \<Rightarrow> rat" where
  "round2 x = sgn x * of_int \<lfloor>\<bar>x\<bar> * 100 + 1 / 2\<rfloor> / 100"

definition count_status :: "string \<Rightarrow> report_join_row list \<Rightarrow> nat" where
  "count_status st rows =
     sum_list (map (\<lambda>r. case snd (fst r) of
                           None \<Rightarrow> 0
                         | Some a \<Rightarrow> if a_status a = st then 1 else 0) rows)"

definition group_key :: "report_join_row \<Rightarrow> int \<times> int \<times> string" where
  "group_key row = (case row of ((s, ao), tpo) \<Rightarrow> (s_id s, s_roll_no s, s_student_name s))"

text \<open>The select list over one group of \<^verbatim>\<open>GROUP BY s.id, s.roll_no, s.student_name\<close>.\<close>

definition report_group :: "int \<times> int \<times> string \<Rightarrow> report_join_row list \<Rightarrow> report_row" where
  "report_group key rows =
     (let total_days = length (filter (\<lambda>r. snd (fst r) \<noteq> None) rows);
          present_days = count_status ''P'' rows;
          absent_days = count_status ''A'' rows
      in \<lparr>r_roll_no = fst (snd key), r_student_name = snd (snd key),
          r_total_days = total_days, r_present_days = present_days,
          r_absent_days = absent_days,
          r_attendance_percentage =
            (if total_days = 0 then None
             else Some (round2 (of_nat present_days * 100 / of_nat total_days)))\<rparr>)"

definition report_query :: "int \<Rightarrow> int \<Rightarrow> date option \<Rightarrow> db \<Rightarrow> report_row list" where
  "report_query classId teacherId bound d =
     (let rows = filter (report_where classId teacherId bound) (report_from d);
          keys = remdups (map group_key rows)
      in map (\<lambda>k. report_group k (filter (\<lambda>r. group_key r = k) rows))
             (sort_key (\<lambda>k. fst (snd k)) keys))"

text \<open>\<^verbatim>\<open>GET /teacher/reports/:classId\<close>; a teacher without a period in the class is
  redirected.\<close>

definition teacher_reports :: "int \<Rightarrow> int \<Rightarrow> int \<Rightarrow> string \<Rightarrow> db \<Rightarrow> error + report_row list" where
  "teacher_reports now_ms teacherId classId period d =
     (case teacherAssignment (timetable_periods d) classId teacherId of
        None \<Rightarrow> Inl AccessDenied
      | Some _ \<Rightarrow> Inr (report_query classId teacherId (report_date_bound period now_ms) d))"

text \<open>
  The rows of a student that the report counts, stated apart from the query: the
  attendance rows of the student whose period exists and is taught by the teacher,
  dated on or after the bound when there is one.
\<close>

definition teacher_records :: "db \<Rightarrow> int \<Rightarrow> date option \<Rightarrow> student \<Rightarrow> attendance list" where
  "teacher_records d teacherId bound s =
     filter (\<lambda>a. a_student_id a = s_id s
                \<and> (\<exists>tp \<in> set (timetable_periods d).
                      a_period_id a = Some (tp_id tp) \<and> tp_teacher_id tp = Some teacherId)
                \<and> (case bound of None \<Rightarrow> True | Some b \<Rightarrow> a_date a \<ge> b))
       (attendance_tbl d)"

text \<open>The rows that claim C1 says are counted: those, and the rows without a period.\<close>

definition claimed_records :: "db \<Rightarrow> int \<Rightarrow> date option \<Rightarrow> student \<Rightarrow> attendance list" where
  "claimed_records d teacherId bound s =
     filter (\<lambda>a. a_student_id a = s_id s
                \<and> ((\<exists>tp \<in> set (timetable_periods d).
                       a_period_id a = Some (tp_id tp) \<and> tp_teacher_id tp = Some teacherId)
                     \<or> a_period_id a = None)
                \<and> (case bound of None \<Rightarrow> True | Some b \<Rightarrow> a_date a \<ge> b))
       (attendance_tbl d)"

section \<open>History Grid Builder: the grid\<close>

text \<open>
  The grid is an object of objects: student id, then date, then a period id or the
  word \<^verbatim>\<open>general\<close>, to a status or null. A date key is the string that
  \<^verbatim>\<open>formatDateLocal\<close> writes for a calendar date and is held here as the day number
  of that date; \<^verbatim>\<open>new Date\<close> reads the same day back from the string when the year
  has four digits. A cell that holds null is \<open>Some None\<close>; a key that is absent is
  \<open>None\<close>.
\<close>

datatype cell_key = PeriodKey int | General

type_synonym cells = "cell_key \<rightharpoonup> string option"

type_synonym grid = "int \<rightharpoonup> (date \<rightharpoonup> cells)"

text \<open>\<^verbatim>\<open>new Date(dateInfo.date).getDay()\<close>: day 0 was a Thursday.\<close>

definition date_getDay :: "date \<Rightarrow> int" where
  "date_getDay dt = (dt + 4) mod 7"

definition adjustedDayOfWeek :: "date \<Rightarrow> int" where
  "adjustedDayOfWeek dt = (let dayOfWeek = date_getDay dt in if dayOfWeek = 0 then 7 else dayOfWeek)"

text \<open>
  The teacher's non-break periods in the class, \<^verbatim>\<open>SELECT DISTINCT\<close> and
  \<^verbatim>\<open>ORDER BY day_of_week, period_number\<close>: two stable sorts, the minor key first.
  The join with the classes keeps every row, since \<^verbatim>\<open>class_id\<close> references a class,
  and the left join with the subjects adds columns that the grid does not read.
\<close>

definition teacherPeriodsOnSameDays :: "timetable_period list \<Rightarrow> int \<Rightarrow> int \<Rightarrow> timetable_period list" where
  "teacherPeriodsOnSameDays tps teacherId classId =
     sort_key tp_day_of_week (sort_key tp_period_number
       (remdups (filter (\<lambda>tp. tp_teacher_id tp = Some teacherId \<and> tp_class_id tp = classId
                              \<and> tp_is_break tp = False) tps)))"

text \<open>The students of the class, \<^verbatim>\<open>ORDER BY roll_no\<close>.\<close>

definition students_of_class :: "db \<Rightarrow> int \<Rightarrow> student list" where
  "students_of_class d classId =
     sort_key s_roll_no (filter (\<lambda>s. s_class_id s = classId) (students d))"

text \<open>
  The attendance rows of the students of the class between the two dates,
  \<^verbatim>\<open>ORDER BY a.date, st.roll_no\<close>. The columns joined from the period and the
  subject are not read by the grid.
\<close>

definition attendanceRecords :: "db \<Rightarrow> int \<Rightarrow> date \<Rightarrow> date \<Rightarrow> attendance list" where
  "attendanceRecords d classId startDate endDate =
     map fst (sort_key (\<lambda>r. a_date (fst r)) (sort_key (\<lambda>r. s_roll_no (snd r))
       (filter (\<lambda>r. s_class_id (snd r) = classId
                    \<and> a_date (fst r) \<ge> startDate \<and> a_date (fst r) \<le> endDate)
          (concat (map (\<lambda>a. map (\<lambda>st. (a, st))
                                (filter (\<lambda>st. a_student_id a = s_id st) (students d)))
                       (attendance_tbl d))))))"

text \<open>The cells of one student and date at initialisation.\<close>

definition init_cells :: "timetable_period list \<Rightarrow> date \<Rightarrow> cells" where
  "init_cells teacherPeriods dt =
     (let periodsForThisDay =
            filter (\<lambda>period. tp_day_of_week period = adjustedDayOfWeek dt) teacherPeriods
      in if length periodsForThisDay > 0
         then fold (\<lambda>period c. c(PeriodKey (tp_id period) \<mapsto> None)) periodsForThisDay Map.empty
         else [General \<mapsto> None])"

definition init_dates :: "timetable_period list \<Rightarrow> date list \<Rightarrow> (date \<rightharpoonup> cells)" where
  "init_dates teacherPeriods dates =
     fold (\<lambda>dt m. m(dt \<mapsto> init_cells teacherPeriods dt)) dates Map.empty"

definition init_grid :: "student list \<Rightarrow> date list \<Rightarrow> timetable_period list \<Rightarrow> grid" where
  "init_grid studs dates teacherPeriods =
     fold (\<lambda>student g. g(s_id student \<mapsto> init_dates teacherPeriods dates)) studs Map.empty"

text \<open>
  One step of the overlay. A record of a student outside the grid is skipped; a date
  outside the grid gets an empty object first. The period cell is used when the period
  id is truthy and the cell is not \<^verbatim>\<open>undefined\<close>.
\<close>

definition overlay_key :: "cells \<Rightarrow> attendance \<Rightarrow> cell_key" where
  "overlay_key c record =
     (case a_period_id record of
        None \<Rightarrow> General
      | Some p \<Rightarrow> if p \<noteq> 0 \<and> c (PeriodKey p) \<noteq> None then PeriodKey p else General)"

definition overlay_record :: "attendance \<Rightarrow> grid \<Rightarrow> grid" where
  "overlay_record record g =
     (case g (a_student_id record) of
        None \<Rightarrow> g
      | Some byDate \<Rightarrow>
          (let c = (case byDate (a_date record) of None \<Rightarrow> Map.empty | Some c \<Rightarrow> c)
           in g(a_student_id record \<mapsto>
                  byDate(a_date record \<mapsto>
                    c(overlay_key c record \<mapsto> Some (a_status record))))))"

definition build_grid ::
  "student list \<Rightarrow> date list \<Rightarrow> timetable_period list \<Rightarrow> attendance list \<Rightarrow> grid" where
  "build_grid studs dates teacherPeriods records =
     fold overlay_record records (init_grid studs dates teacherPeriods)"

text \<open>What the template reads: the cell of a student, date and key.\<close>

definition grid_cell :: "grid \<Rightarrow> int \<Rightarrow> date \<Rightarrow> cell_key \<Rightarrow> string option option" where
  "grid_cell g studentId dt k =
     (case g studentId of
        None \<Rightarrow> None
      | Some byDate \<Rightarrow> (case byDate dt of None \<Rightarrow> None | Some c \<Rightarrow> c k))"

section \<open>History Grid Builder: the window\<close>

text \<open>
  A \<^verbatim>\<open>Date\<close> is read and written through its local calendar fields only
  (\<^verbatim>\<open>getFullYear\<close>, \<^verbatim>\<open>getMonth\<close> from 0, \<^verbatim>\<open>getDate\<close>, \<^verbatim>\<open>getDay\<close>,
  \<^verbatim>\<open>setDate\<close>), so it is held as those fields; the time of day plays no part. The
  server runs in the zone \<^verbatim>\<open>Asia/Kolkata\<close> unless \<^verbatim>\<open>TZ\<close> is set, ahead of UTC, so
  the date string of the request denotes the same local day.
\<close>

record jsdate =
  d_year :: int
  d_month :: int
  d_date :: int

definition InLeapYear :: "int \<Rightarrow> bool" where
  "InLeapYear y \<longleftrightarrow> y mod 4 = 0 \<and> (y mod 100 \<noteq> 0 \<or> y mod 400 = 0)"

definition DaysInMonth :: "int \<Rightarrow> int \<Rightarrow> int" where
  "DaysInMonth y m =
     (if m = 1 then (if InLeapYear y then 29 else 28)
      else if m = 3 \<or> m = 5 \<or> m = 8 \<or> m = 10 then 30 else 31)"

text \<open>The day number of 1 January of a year, as ECMAScript defines it.\<close>

definition DayFromYear :: "int \<Rightarrow> int" where
  "DayFromYear y = 365 * (y - 1970) + (y - 1969) div 4 - (y - 1901) div 100 + (y - 1601) div 400"

definition DaysBeforeMonth :: "int \<Rightarrow> int \<Rightarrow> int" where
  "DaysBeforeMonth y m = sum_list (map (DaysInMonth y) [0..m - 1])"

text \<open>The day number of a date, from 1 January 1970 as day 0, and its weekday, 0 for
  Sunday.\<close>

definition dayNumber :: "jsdate \<Rightarrow> date" where
  "dayNumber D = DayFromYear (d_year D) + DaysBeforeMonth (d_year D) (d_month D) + d_date D - 1"

definition getDay :: "jsdate \<Rightarrow> int" where
  "getDay D = (dayNumber D + 4) mod 7"


text \<open>
  A day of the month outside the month carries into the months before or after, as
  \<^verbatim>\<open>setDate\<close> and the \<^verbatim>\<open>Date\<close> constructor do: day 0 is the last day of the month
  before, day 32 of a month of 31 days the first of the next.
\<close>

function normalize_date :: "int \<Rightarrow> int \<Rightarrow> int \<Rightarrow> jsdate" where
  "normalize_date y m dt =
     (if dt < 1
      then (let y' = (if m = 0 then y - 1 else y); m' = (if m = 0 then 11 else m - 1)
            in normalize_date y' m' (dt + DaysInMonth y' m'))
      else if dt > DaysInMonth y m
      then (let y' = (if m = 11 then y + 1 else y); m' = (if m = 11 then 0 else m + 1)
            in normalize_date y' m' (dt - DaysInMonth y m))
      else \<lparr>d_year = y, d_month = m, d_date = dt\<rparr>)"
  by pat_completeness auto
termination
  by (relation "measure (\<lambda>(y, m, dt). if dt < 1 then 32 + nat (1 - dt) else nat dt)")
     (auto simp: DaysInMonth_def)

declare normalize_date.simps [simp del]

text \<open>\<^verbatim>\<open>D.setDate(v)\<close>, on a copy of \<open>D\<close>.\<close>

definition setDate :: "jsdate \<Rightarrow> int \<Rightarrow> jsdate" where
  "setDate D v = normalize_date (d_year D) (d_month D) v"

text \<open>\<^verbatim>\<open>new Date(year, month, date)\<close>: a year from 0 to 99 stands for 1900 plus that
  year, and a month outside 0 to 11 carries into the year.\<close>

definition newDate :: "int \<Rightarrow> int \<Rightarrow> int \<Rightarrow> jsdate" where
  "newDate y m dt =
     (let yr = (if 0 \<le> y \<and> y \<le> 99 then 1900 + y else y)
      in normalize_date (yr + m div 12) (m mod 12) dt)"

text \<open>The branch \<^verbatim>\<open>view === 'week'\<close>: start, end and the seven dates.\<close>

definition week_window :: "jsdate \<Rightarrow> jsdate \<times> jsdate \<times> jsdate list" where
  "week_window currentDate =
     (let dayOfWeek = getDay currentDate;
          daysToMonday = (if dayOfWeek = 0 then - 6 else 1 - dayOfWeek);
          startDate = setDate currentDate (d_date currentDate + daysToMonday);
          endDate = setDate startDate (d_date startDate + 6);
          dates = map (\<lambda>i. setDate startDate (d_date startDate + i)) [0..6]
      in (startDate, endDate, dates))"

text \<open>The branch \<^verbatim>\<open>view === 'month'\<close>.\<close>

definition month_window :: "jsdate \<Rightarrow> jsdate \<times> jsdate \<times> jsdate list" where
  "month_window currentDate =
     (let startDate = newDate (d_year currentDate) (d_month currentDate) 1;
          endDate = newDate (d_year currentDate) (d_month currentDate + 1) 0;
          daysInMonth = d_date endDate;
          dates = map (\<lambda>i. newDate (d_year currentDate) (d_month currentDate) i) [1..daysInMonth]
      in (startDate, endDate, dates))"

text \<open>
  \<^verbatim>\<open>GET /teacher/attendance/:classId/history\<close>: the dates of the window as keys and
  the grid. With another view the start and end stay undefined, the attendance query
  raises on their text, and the handler redirects. The class of an assigned period
  exists, so the lookup of the class succeeds.
\<close>

definition attendance_history ::
  "int \<Rightarrow> int \<Rightarrow> string \<Rightarrow> jsdate \<Rightarrow> db \<Rightarrow> error + (date list \<times> grid)" where
  "attendance_history teacherId classId view currentDate d =
     (case teacherAssignment (timetable_periods d) classId teacherId of
        None \<Rightarrow> Inl AccessDenied
      | Some _ \<Rightarrow>
          (if view = ''week'' \<or> view = ''month''
           then (let (startDate, endDate, dates) =
                       (if view = ''week'' then week_window currentDate
                        else month_window currentDate);
                     dateKeys = map dayNumber dates
                 in Inr (dateKeys,
                      build_grid (students_of_class d classId) dateKeys
                        (teacherPeriodsOnSameDays (timetable_periods d) teacherId classId)
                        (attendanceRecords d classId (dayNumber startDate) (dayNumber endDate))))
           else Inl StorageError))"

section \<open>Example data\<close>

text \<open>
  Class 5 on Mondays: teacher 2 has period 1 from 09:00 to 10:00, a break follows until
  10:15, teacher 3 has period 3 until 11:15. Student 1 has roll number 1, student 2 roll
  number 2.
\<close>

definition ex_period :: timetable_period where
  "ex_period = \<lparr>tp_id = 10, tp_class_id = 5, tp_day_of_week = 1, tp_period_number = 1,
     tp_start_time = 32400, tp_end_time = 36000, tp_subject_id = Some 1,
     tp_teacher_id = Some 2, tp_is_break = False\<rparr>"

definition ex_break :: timetable_period where
  "ex_break = \<lparr>tp_id = 11, tp_class_id = 5, tp_day_of_week = 1, tp_period_number = 2,
     tp_start_time = 36000, tp_end_time = 36900, tp_subject_id = None,
     tp_teacher_id = None, tp_is_break = True\<rparr>"

definition ex_other :: timetable_period where
  "ex_other = \<lparr>tp_id = 12, tp_class_id = 5, tp_day_of_week = 1, tp_period_number = 3,
     tp_start_time = 36900, tp_end_time = 40500, tp_subject_id = Some 2,
     tp_teacher_id = Some 3, tp_is_break = False\<rparr>"

definition ex_student :: student where
  "ex_student = \<lparr>s_id = 1, s_roll_no = 1, s_class_id = 5, s_student_name = ''Arjun Sharma''\<rparr>"

definition ex_student2 :: student where
  "ex_student2 = \<lparr>s_id = 2, s_roll_no = 2, s_class_id = 5, s_student_name = ''Priya Patel''\<rparr>"

definition ex_db :: db where
  "ex_db = \<lparr>students = [ex_student, ex_student2],
     timetable_periods = [ex_period, ex_break, ex_other], attendance_tbl = []\<rparr>"

text \<open>A row of the given student, date and status under the given period.\<close>

definition ex_row :: "int \<Rightarrow> date \<Rightarrow> int option \<Rightarrow> string \<Rightarrow> attendance" where
  "ex_row studentId dt periodId status =
     \<lparr>a_student_id = studentId, a_class_id = Some 5, a_period_id = periodId, a_date = dt,
      a_status = status, a_marked_by = Some 2\<rparr>"

text \<open>1 September 2025, a Monday, is day 20332; 09:30 and 11:30 in India that day, as
  \<^verbatim>\<open>Date.now()\<close>.\<close>

definition ex_now_0930 :: int where
  "ex_now_0930 = 1756699200000"

definition ex_now_1130 :: int where
  "ex_now_1130 = 1756706400000"

definition ex_req :: mark_request where
  "ex_req = \<lparr>mr_studentId = 1, mr_classId = 5, mr_status = ''P'', mr_date = 20332\<rparr>"

text \<open>The example with three rows of that Monday: student 1 present in the period of
  teacher 2 and absent in the period of teacher 3, student 2 present by a manual entry.\<close>

definition ex_db2 :: db where
  "ex_db2 = ex_db\<lparr>attendance_tbl :=
     [ex_row 1 20332 (Some 10) ''P'', ex_row 1 20332 (Some 12) ''A'',
      ex_row 2 20332 None ''P'']\<rparr>"

text \<open>
  The example for the report of the week before 1 September 2025, whose bound is day
  20325: student 1 has five rows in period 10 of teacher 2 inside the week, three
  present and two absent, one older row, and a manual row without period; student 2
  has a manual row only.
\<close>

definition ex_db3 :: db where
  "ex_db3 = ex_db\<lparr>attendance_tbl :=
     [ex_row 1 20332 (Some 10) ''P'', ex_row 1 20331 (Some 10) ''P'',
      ex_row 1 20330 (Some 10) ''P'', ex_row 1 20329 (Some 10) ''A'',
      ex_row 1 20328 (Some 10) ''A'', ex_row 1 20300 (Some 10) ''P'',
      ex_row 1 20332 None ''A'', ex_row 2 20332 None ''P'']\<rparr>"

section \<open>Properties of the Period Matcher\<close>











section \<open>Properties of the Attendance Recorder\<close>

lemma filter_not_map_unchanged:
  assumes "\<And>a. C (g a) = C a" and "\<And>a. \<not> C a \<Longrightarrow> g a = a"
  shows "filter (\<lambda>a. \<not> C a) (map g xs) = filter (\<lambda>a. \<not> C a) xs"
  using assms by (induction xs) simp_all

lemma length_filter_map_same:
  assumes "\<And>a. C (g a) = C a"
  shows "length (filter C (map g xs)) = length (filter C xs)"
  using assms by (induction xs) simp_all

lemma length_filter_pos:
  assumes "x \<in> set xs" and "C x"
  shows "1 \<le> length (filter C xs)"
proof -
  have "x \<in> set (filter C xs)" using assms by simp
  then have "filter C xs \<noteq> []" by (metis empty_iff list.set(1))
  then show ?thesis by (cases "filter C xs") simp_all
qed

lemma map_id_on:
  assumes "\<And>a. a \<in> set xs \<Longrightarrow> g a = a"
  shows "map g xs = xs"
  using assms by (induction xs) simp_all

lemma conflict_upsert_row:
  "attendance_conflict s dt p (upsert_row s dt p st u a) = attendance_conflict s dt p a"
  by (simp add: upsert_row_def attendance_conflict_def)

lemma upsert_row_other:
  "\<not> attendance_conflict s dt p a \<Longrightarrow> upsert_row s dt p st u a = a"
  by (simp add: upsert_row_def)

lemma upsert_row_fields:
  "attendance_conflict s dt p a \<Longrightarrow>
     a_status (upsert_row s dt p st u a) = st \<and> a_marked_by (upsert_row s dt p st u a) = Some u"
  by (simp add: upsert_row_def)

lemma upsert_row_fixed:
  "a_status a = st \<Longrightarrow> a_marked_by a = Some u \<Longrightarrow> upsert_row s dt p st u a = a"
  by (simp add: upsert_row_def)

lemma upsert_conflict:
  assumes "\<exists>a \<in> set (attendance_tbl d). attendance_conflict s dt p a" and "status_check st"
  shows "upsert_attendance d s c p dt st u =
           Inr (d\<lparr>attendance_tbl := map (upsert_row s dt p st u) (attendance_tbl d)\<rparr>)"
  using assms by (simp add: upsert_attendance_def)

lemma upsert_insert:
  assumes "\<not> (\<exists>a \<in> set (attendance_tbl d). attendance_conflict s dt p a)"
    and "status_check st" and "student_fk d s"
  shows "upsert_attendance d s c p dt st u =
           Inr (d\<lparr>attendance_tbl := attendance_tbl d @
                  [\<lparr>a_student_id = s, a_class_id = Some c, a_period_id = Some p,
                    a_date = dt, a_status = st, a_marked_by = Some u\<rparr>]\<rparr>)"
  using assms by (simp add: upsert_attendance_def)

lemma upsert_attendance_effect:
  assumes st: "status_check st" and fk: "student_fk d s"
  shows "\<exists>d'. upsert_attendance d s c p dt st u = Inr d'
     \<and> students d' = students d \<and> timetable_periods d' = timetable_periods d
     \<and> (\<exists>a \<in> set (attendance_tbl d'). attendance_conflict s dt p a)
     \<and> (\<forall>a \<in> set (attendance_tbl d'). attendance_conflict s dt p a
           \<longrightarrow> a_status a = st \<and> a_marked_by a = Some u)
     \<and> filter (\<lambda>a. \<not> attendance_conflict s dt p a) (attendance_tbl d')
         = filter (\<lambda>a. \<not> attendance_conflict s dt p a) (attendance_tbl d)
     \<and> length (filter (attendance_conflict s dt p) (attendance_tbl d'))
         = max 1 (length (filter (attendance_conflict s dt p) (attendance_tbl d)))"
proof (cases "\<exists>a \<in> set (attendance_tbl d). attendance_conflict s dt p a")
  case True
  let ?g = "upsert_row s dt p st u"
  let ?d = "d\<lparr>attendance_tbl := map ?g (attendance_tbl d)\<rparr>"
  from True obtain x where x: "x \<in> set (attendance_tbl d)" "attendance_conflict s dt p x"
    by auto
  have 1: "upsert_attendance d s c p dt st u = Inr ?d"
    by (rule upsert_conflict [OF True st])
  have 2: "\<exists>a \<in> set (attendance_tbl ?d). attendance_conflict s dt p a"
    using True by (simp add: conflict_upsert_row)
  have 3: "\<forall>a \<in> set (attendance_tbl ?d). attendance_conflict s dt p a
           \<longrightarrow> a_status a = st \<and> a_marked_by a = Some u"
    by (simp add: conflict_upsert_row upsert_row_fields)
  have 4: "filter (\<lambda>a. \<not> attendance_conflict s dt p a) (attendance_tbl ?d)
         = filter (\<lambda>a. \<not> attendance_conflict s dt p a) (attendance_tbl d)"
    using filter_not_map_unchanged [of "attendance_conflict s dt p" ?g "attendance_tbl d"]
    by (simp add: conflict_upsert_row upsert_row_other)
  have 5: "length (filter (attendance_conflict s dt p) (attendance_tbl ?d))
         = length (filter (attendance_conflict s dt p) (attendance_tbl d))"
    using length_filter_map_same [of "attendance_conflict s dt p" ?g "attendance_tbl d"]
    by (simp add: conflict_upsert_row)
  have 6: "1 \<le> length (filter (attendance_conflict s dt p) (attendance_tbl d))"
    using x by (rule length_filter_pos)
  have 7: "students ?d = students d \<and> timetable_periods ?d = timetable_periods d"
    by simp
  from 5 6 have 8: "length (filter (attendance_conflict s dt p) (attendance_tbl ?d))
         = max 1 (length (filter (attendance_conflict s dt p) (attendance_tbl d)))"
    by simp
  show ?thesis
    using 1 2 3 4 7 8 by blast
next
  case False
  let ?r = "\<lparr>a_student_id = s, a_class_id = Some c, a_period_id = Some p,
                    a_date = dt, a_status = st, a_marked_by = Some u\<rparr>"
  let ?d = "d\<lparr>attendance_tbl := attendance_tbl d @ [?r]\<rparr>"
  have 1: "upsert_attendance d s c p dt st u = Inr ?d"
    by (rule upsert_insert [OF False st fk])
  have c: "attendance_conflict s dt p ?r"
    by (simp add: attendance_conflict_def)
  have n: "filter (attendance_conflict s dt p) (attendance_tbl d) = []"
    using False by (simp add: filter_empty_conv)
  have 2: "\<exists>a \<in> set (attendance_tbl ?d). attendance_conflict s dt p a"
    using c by simp
  have 3: "\<forall>a \<in> set (attendance_tbl ?d). attendance_conflict s dt p a
           \<longrightarrow> a_status a = st \<and> a_marked_by a = Some u"
    using False by auto
  have 4: "filter (\<lambda>a. \<not> attendance_conflict s dt p a) (attendance_tbl ?d)
         = filter (\<lambda>a. \<not> attendance_conflict s dt p a) (attendance_tbl d)"
    using c by simp
  have 8: "length (filter (attendance_conflict s dt p) (attendance_tbl ?d))
         = max 1 (length (filter (attendance_conflict s dt p) (attendance_tbl d)))"
    using c n by simp
  have 7: "students ?d = students d \<and> timetable_periods ?d = timetable_periods d"
    by simp
  show ?thesis
    using 1 2 3 4 7 8 by blast
qed







lemma mark_attendance_period:
  assumes "teacherCurrentPeriod (timetable_periods d) (mr_classId req) userId
             (getCurrentDayOfWeek off now) (getCurrentTime off now) = Some p"
    and "upsert_attendance d (mr_studentId req) (mr_classId req) (tp_id p) (mr_date req)
           (mr_status req) userId = Inr d'"
  shows "mark_attendance off now userId req d = (Inr (), d')"
  using assms by (simp add: mark_attendance_def)




lemma ex_clock:
  "getCurrentDayOfWeek 0 ex_now_0930 = 1" "getCurrentTime 0 ex_now_0930 = 34200"
  "getCurrentDayOfWeek 0 ex_now_1130 = 1" "getCurrentTime 0 ex_now_1130 = 41400"
  by (simp_all add: getCurrentDayOfWeek_def getCurrentTime_def getUTCDay_def getNowIST_def
      ex_now_0930_def ex_now_1130_def)

lemma ex_current_period:
  "teacherCurrentPeriod (timetable_periods ex_db) 5 2 1 34200 = Some ex_period"
  by (simp add: teacherCurrentPeriod_def teacher_period_where_def queryOne_def
      ex_db_def ex_period_def ex_break_def ex_other_def)


section \<open>Idempotence of marking\<close>

lemma distinct_map_filter_le1:
  assumes "distinct (map f xs)"
  shows "length (filter (\<lambda>x. f x = k) xs) \<le> 1"
  using assms
proof (induction xs)
  case Nil
  then show ?case by simp
next
  case (Cons x xs)
  show ?case
  proof (cases "f x = k")
    case True
    with Cons.prems have "\<forall>y \<in> set xs. f y \<noteq> k" by (force simp: image_iff)
    then have "filter (\<lambda>x. f x = k) xs = []" by (simp add: filter_empty_conv)
    with True show ?thesis by simp
  next
    case False
    with Cons show ?thesis by simp
  qed
qed

lemma attendance_unique_le1:
  assumes "attendance_unique rows"
  shows "length (filter (attendance_conflict s dt p) rows) \<le> 1"
proof -
  have "filter (attendance_conflict s dt p) rows =
        filter (\<lambda>a. (a_student_id a, a_date a, a_period_id a) = (s, dt, Some p))
          (filter (\<lambda>a. a_period_id a \<noteq> None) rows)"
    by (induction rows) (auto simp: attendance_conflict_def)
  with distinct_map_filter_le1 [of "\<lambda>a. (a_student_id a, a_date a, a_period_id a)"
      "filter (\<lambda>a. a_period_id a \<noteq> None) rows" "(s, dt, Some p)"] assms
  show ?thesis
    by (simp add: attendance_unique_def)
qed

text \<open>
  Claim C9. From a table that satisfies its unique constraint, two calls with the same
  request by the same teacher, at two instants inside the same period of that teacher,
  with a status the table accepts and a student that exists: both succeed, the second
  returns the database the first one left, and that database holds exactly one row for
  (student, date, period), with the status of the request.
\<close>

theorem mark_attendance_twice:
  assumes uniq: "attendance_unique (attendance_tbl d)"
    and st: "status_check (mr_status req)"
    and fk: "student_fk d (mr_studentId req)"
    and p1: "teacherCurrentPeriod (timetable_periods d) (mr_classId req) userId
               (getCurrentDayOfWeek off now1) (getCurrentTime off now1) = Some p"
    and p2: "teacherCurrentPeriod (timetable_periods d) (mr_classId req) userId
               (getCurrentDayOfWeek off now2) (getCurrentTime off now2) = Some p"
  shows "\<exists>d1. mark_attendance off now1 userId req d = (Inr (), d1)
     \<and> mark_attendance off now2 userId req d1 = (Inr (), d1)
     \<and> length (filter (attendance_conflict (mr_studentId req) (mr_date req) (tp_id p))
          (attendance_tbl d1)) = 1
     \<and> (\<forall>a \<in> set (attendance_tbl d1).
           attendance_conflict (mr_studentId req) (mr_date req) (tp_id p) a
           \<longrightarrow> a_status a = mr_status req)"
proof -
  let ?C = "attendance_conflict (mr_studentId req) (mr_date req) (tp_id p)"
  from upsert_attendance_effect [OF st fk, of "mr_classId req" "tp_id p" "mr_date req" userId]
  obtain d1 where u1: "upsert_attendance d (mr_studentId req) (mr_classId req) (tp_id p)
        (mr_date req) (mr_status req) userId = Inr d1"
    and tps: "timetable_periods d1 = timetable_periods d"
    and ex: "\<exists>a \<in> set (attendance_tbl d1). ?C a"
    and vals: "\<forall>a \<in> set (attendance_tbl d1). ?C a
           \<longrightarrow> a_status a = mr_status req \<and> a_marked_by a = Some userId"
    and len: "length (filter ?C (attendance_tbl d1))
         = max 1 (length (filter ?C (attendance_tbl d)))"
    by blast
  have m1: "mark_attendance off now1 userId req d = (Inr (), d1)"
    by (rule mark_attendance_period [OF p1 u1])
  have "map (upsert_row (mr_studentId req) (mr_date req) (tp_id p) (mr_status req) userId)
          (attendance_tbl d1) = attendance_tbl d1"
  proof (rule map_id_on)
    fix a assume "a \<in> set (attendance_tbl d1)"
    with vals show "upsert_row (mr_studentId req) (mr_date req) (tp_id p) (mr_status req)
        userId a = a"
      by (cases "?C a") (simp_all add: upsert_row_fixed upsert_row_other)
  qed
  then have u2: "upsert_attendance d1 (mr_studentId req) (mr_classId req) (tp_id p)
        (mr_date req) (mr_status req) userId = Inr d1"
    using upsert_conflict [OF ex st, of "mr_classId req" userId] by simp
  have m2: "mark_attendance off now2 userId req d1 = (Inr (), d1)"
    using mark_attendance_period [of d1 req userId off now2 p d1] p2 tps u2 by simp
  have one: "length (filter ?C (attendance_tbl d1)) = 1"
    using len attendance_unique_le1 [OF uniq, of "mr_studentId req" "mr_date req" "tp_id p"]
    by simp
  from m1 m2 one vals show ?thesis by blast
qed

text \<open>The theorem on the example: teacher 2 marks student 1 present at 09:30 and again
  at 09:30.\<close>

theorem mark_attendance_twice_witness:
  "\<exists>d1. mark_attendance 0 ex_now_0930 2 ex_req ex_db = (Inr (), d1)
     \<and> mark_attendance 0 ex_now_0930 2 ex_req d1 = (Inr (), d1)
     \<and> length (filter (attendance_conflict 1 20332 10) (attendance_tbl d1)) = 1
     \<and> (\<forall>a \<in> set (attendance_tbl d1). attendance_conflict 1 20332 10 a
           \<longrightarrow> a_status a = ''P'')"
proof -
  have u: "attendance_unique (attendance_tbl ex_db)"
    by (simp add: attendance_unique_def ex_db_def)
  have s: "status_check (mr_status ex_req)"
    by (simp add: status_check_def ex_req_def)
  have f: "student_fk ex_db (mr_studentId ex_req)"
    by (simp add: student_fk_def ex_req_def ex_db_def ex_student_def)
  have p: "teacherCurrentPeriod (timetable_periods ex_db) (mr_classId ex_req) 2
               (getCurrentDayOfWeek 0 ex_now_0930) (getCurrentTime 0 ex_now_0930) = Some ex_period"
    using ex_current_period by (simp add: ex_clock ex_req_def)
  have r: "mr_studentId ex_req = 1" "mr_date ex_req = 20332" "mr_status ex_req = ''P''"
    "tp_id ex_period = 10"
    by (simp_all add: ex_req_def ex_period_def)
  show ?thesis
    using mark_attendance_twice [OF u s f p p] unfolding r .
qed

section \<open>The cascade\<close>

lemma queryOne_filter_Some:
  assumes "\<exists>x \<in> set xs. P x"
  shows "\<exists>y. queryOne (filter P xs) = Some y"
proof -
  from assms have "filter P xs \<noteq> []" by (simp add: filter_empty_conv)
  then show ?thesis by (cases "filter P xs") (simp_all add: queryOne_def)
qed

text \<open>
  Claim C10. Deleting a period that exists removes the period, answers with the number
  of attendance rows that referenced it, and leaves in the attendance table exactly the
  rows, in their order and number, whose period reference is another period or null;
  the students and the other periods are as before.
\<close>

theorem delete_period_cascade:
  assumes "\<exists>tp \<in> set (timetable_periods d). tp_id tp = periodId"
  shows "\<exists>d'. delete_period periodId d =
            (Inr (length (filter (\<lambda>a. a_period_id a = Some periodId) (attendance_tbl d))), d')
     \<and> attendance_tbl d' = filter (\<lambda>a. a_period_id a \<noteq> Some periodId) (attendance_tbl d)
     \<and> (\<forall>a. a \<in> set (attendance_tbl d') \<longleftrightarrow>
              a \<in> set (attendance_tbl d) \<and> a_period_id a \<noteq> Some periodId)
     \<and> timetable_periods d' = filter (\<lambda>tp. tp_id tp \<noteq> periodId) (timetable_periods d)
     \<and> students d' = students d"
proof -
  from queryOne_filter_Some [OF assms] obtain y where
    "queryOne (filter (\<lambda>tp. tp_id tp = periodId) (timetable_periods d)) = Some y" ..
  then have "delete_period periodId d =
     (Inr (length (filter (\<lambda>a. a_period_id a = Some periodId) (attendance_tbl d))),
      d\<lparr>timetable_periods := filter (\<lambda>tp. tp_id tp \<noteq> periodId) (timetable_periods d),
        attendance_tbl := filter (\<lambda>a. a_period_id a \<noteq> Some periodId) (attendance_tbl d)\<rparr>)"
    by (simp add: delete_period_def)
  then show ?thesis by simp
qed

text \<open>The theorem on the example: deleting period 10 removes the one row marked in it
  and keeps the row of period 12 and the manual row.\<close>

theorem delete_period_cascade_witness:
  "\<exists>d'. delete_period 10 ex_db2 = (Inr 1, d')
     \<and> attendance_tbl d' = [ex_row 1 20332 (Some 12) ''A'', ex_row 2 20332 None ''P'']
     \<and> timetable_periods d' = [ex_break, ex_other]
     \<and> students d' = students ex_db2"
proof -
  have h: "\<exists>tp \<in> set (timetable_periods ex_db2). tp_id tp = 10"
    by (simp add: ex_db2_def ex_db_def ex_period_def)
  from delete_period_cascade [OF h] obtain d' where
    1: "delete_period 10 ex_db2 =
          (Inr (length (filter (\<lambda>a. a_period_id a = Some 10) (attendance_tbl ex_db2))), d')"
    and 2: "attendance_tbl d' = filter (\<lambda>a. a_period_id a \<noteq> Some 10) (attendance_tbl ex_db2)"
    and 3: "timetable_periods d' = filter (\<lambda>tp. tp_id tp \<noteq> 10) (timetable_periods ex_db2)"
    and 4: "students d' = students ex_db2"
    by blast
  have 5: "length (filter (\<lambda>a. a_period_id a = Some 10) (attendance_tbl ex_db2)) = 1"
    by (simp add: ex_db2_def ex_row_def)
  have 6: "filter (\<lambda>a. a_period_id a \<noteq> Some 10) (attendance_tbl ex_db2)
      = [ex_row 1 20332 (Some 12) ''A'', ex_row 2 20332 None ''P'']"
    by (simp add: ex_db2_def ex_row_def)
  have 7: "filter (\<lambda>tp. tp_id tp \<noteq> 10) (timetable_periods ex_db2) = [ex_break, ex_other]"
    by (simp add: ex_db2_def ex_db_def ex_period_def ex_break_def ex_other_def)
  from 1 2 3 4 show ?thesis
    unfolding 5 6 7 by blast
qed

section \<open>Properties of the bulk historical edit\<close>

lemma left_join_set:
  "set (left_join on xs ys) =
     {(x, Some y) | x y. x \<in> set xs \<and> y \<in> set ys \<and> on x y}
     \<union> {(x, None) | x. x \<in> set xs \<and> (\<forall>y \<in> set ys. \<not> on x y)}"
proof (induction xs)
  case Nil
  then show ?case by (simp add: left_join_def)
next
  case (Cons x xs)
  have step: "left_join on (x # xs) ys =
      (if filter (on x) ys = [] then [(x, None)] else map (\<lambda>y. (x, Some y)) (filter (on x) ys))
      @ left_join on xs ys"
    by (simp add: left_join_def left_join_row_def Let_def)
  show ?case
  proof (cases "filter (on x) ys = []")
    case True
    then have n: "\<forall>y \<in> set ys. \<not> on x y" by (simp add: filter_empty_conv)
    from True have "set (left_join on (x # xs) ys) = insert (x, None) (set (left_join on xs ys))"
      by (simp add: step)
    with n show ?thesis unfolding Cons.IH by auto
  next
    case False
    then have n: "\<exists>y \<in> set ys. on x y" by (simp add: filter_empty_conv)
    from False have "set (left_join on (x # xs) ys) =
        (\<lambda>y. (x, Some y)) ` {y \<in> set ys. on x y} \<union> set (left_join on xs ys)"
      by (simp add: step)
    with n show ?thesis unfolding Cons.IH by auto
  qed
qed










lemma ex_db2_tbl:
  "attendance_tbl ex_db2 =
     [ex_row 1 20332 (Some 10) ''P'', ex_row 1 20332 (Some 12) ''A'', ex_row 2 20332 None ''P'']"
  "students ex_db2 = [ex_student, ex_student2]"
  "timetable_periods ex_db2 = [ex_period, ex_break, ex_other]"
  by (simp_all add: ex_db2_def ex_db_def)


lemma teacherAssignment_Some:
  assumes "\<exists>tp \<in> set tps. tp_class_id tp = c \<and> tp_teacher_id tp = Some t \<and> tp_is_break tp = False"
  shows "\<exists>x. teacherAssignment tps c t = Some x"
proof -
  let ?f = "filter (\<lambda>tp. tp_class_id tp = c \<and> tp_teacher_id tp = Some t
                     \<and> tp_is_break tp = False) tps"
  from assms obtain tp where "tp \<in> set tps" "tp_class_id tp = c \<and> tp_teacher_id tp = Some t
      \<and> tp_is_break tp = False" by blast
  then have "tp \<in> set ?f" by simp
  then have "?f \<noteq> []" by (metis empty_iff list.set(1))
  then have "remdups (map tp_id ?f) \<noteq> []" by simp
  then show ?thesis
    unfolding teacherAssignment_def by (cases "remdups (map tp_id ?f)") (simp_all add: queryOne_def)
qed






section \<open>Properties of the Report Aggregator\<close>

lemma length_filter_concat:
  "length (filter R (concat xss)) = sum_list (map (\<lambda>xs. length (filter R xs)) xss)"
  by (induction xss) simp_all

lemma sum_list_single:
  assumes "distinct xs" and "x \<in> set xs"
    and "\<And>y. y \<in> set xs \<Longrightarrow> y \<noteq> x \<Longrightarrow> f y = (0::nat)"
  shows "sum_list (map f xs) = f x"
  using assms
proof (induction xs)
  case Nil
  then show ?case by simp
next
  case (Cons z zs)
  show ?case
  proof (cases "z = x")
    case True
    with Cons.prems(1) have "x \<notin> set zs" by simp
    then have "\<And>y. y \<in> set zs \<Longrightarrow> f y = 0"
      using Cons.prems(3) by (metis list.set_intros(2))
    then have "sum_list (map f zs) = 0" by simp
    with True show ?thesis by simp
  next
    case False
    with Cons.prems have "x \<in> set zs" "distinct zs" "f z = 0" by simp_all
    with Cons.IH Cons.prems(3) show ?thesis by simp
  qed
qed

lemma sum_list_indicator:
  "sum_list (map (\<lambda>a. if P a then 1 else 0) xs) = length (filter P xs)"
  by (induction xs) simp_all

lemma filter_unique_le1:
  assumes "distinct ys"
    and "\<And>y y'. y \<in> set ys \<Longrightarrow> y' \<in> set ys \<Longrightarrow> P y \<Longrightarrow> P y' \<Longrightarrow> y = y'"
  shows "length (filter P ys) \<le> 1"
  using assms
proof (induction ys)
  case Nil
  then show ?case by simp
next
  case (Cons z zs)
  show ?case
  proof (cases "P z")
    case True
    have "\<forall>y \<in> set zs. \<not> P y"
    proof
      fix y assume y: "y \<in> set zs"
      show "\<not> P y"
      proof
        assume "P y"
        with Cons.prems(2) [of z y] True y have "z = y" by simp
        with Cons.prems(1) y show False by simp
      qed
    qed
    then have "filter P zs = []" by (simp add: filter_empty_conv)
    with True show ?thesis by simp
  next
    case False
    have "length (filter P zs) \<le> 1"
    proof (rule Cons.IH)
      show "distinct zs" using Cons.prems(1) by simp
      show "\<And>y y'. y \<in> set zs \<Longrightarrow> y' \<in> set zs \<Longrightarrow> P y \<Longrightarrow> P y' \<Longrightarrow> y = y'"
        using Cons.prems(2) by simp
    qed
    with False show ?thesis by simp
  qed
qed

lemma left_join_row_count:
  assumes d: "distinct ys"
    and u: "\<And>y y'. y \<in> set ys \<Longrightarrow> y' \<in> set ys \<Longrightarrow> on x y \<Longrightarrow> on x y' \<Longrightarrow> y = y'"
    and n: "\<not> R (x, None)"
  shows "length (filter R (left_join_row on x ys)) =
           (if \<exists>y \<in> set ys. on x y \<and> R (x, Some y) then 1 else 0)"
proof (cases "filter (on x) ys")
  case Nil
  then have "\<forall>y \<in> set ys. \<not> on x y" by (simp add: filter_empty_conv)
  with Nil n show ?thesis by (simp add: left_join_row_def)
next
  case (Cons y rest)
  from filter_unique_le1 [of ys "on x", OF d u] Cons have rest: "rest = []" by simp
  have "y \<in> set (filter (on x) ys)" unfolding Cons by simp
  then have y: "y \<in> set ys" "on x y" by simp_all
  have only: "\<And>y'. y' \<in> set ys \<Longrightarrow> on x y' \<Longrightarrow> y' = y"
    using u y by blast
  have "(\<exists>y' \<in> set ys. on x y' \<and> R (x, Some y')) \<longleftrightarrow> R (x, Some y)"
    using y only by blast
  with Cons rest show ?thesis by (simp add: left_join_row_def)
qed

lemma left_join_append:
  "left_join on (xs @ xs') ys = left_join on xs ys @ left_join on xs' ys"
  by (simp add: left_join_def)

lemma left_join_concat:
  "left_join on (concat (map f ss)) ys = concat (map (\<lambda>s. left_join on (f s) ys) ss)"
  by (induction ss) (simp_all add: left_join_append left_join_def)


lemma report_from_concat:
  "report_from d =
     concat (map (\<lambda>s. left_join (\<lambda>sa tp. case snd sa of None \<Rightarrow> False
                                      | Some a \<Rightarrow> a_period_id a = Some (tp_id tp))
                        (left_join_row (\<lambda>s a. s_id s = a_student_id a) s (attendance_tbl d))
                        (timetable_periods d)) (students d))"
  unfolding report_from_def left_join_def [of "\<lambda>s a. s_id s = a_student_id a"]
  by (rule left_join_concat)

lemma distinct_map_eq:
  assumes "distinct (map f xs)" and "x \<in> set xs" and "y \<in> set xs" and "f x = f y"
  shows "x = y"
  using assms by (meson distinct_map inj_on_eq_iff)

lemma student_rows_count:
  fixes R :: "report_join_row \<Rightarrow> bool"
  assumes dp: "distinct (map tp_id (timetable_periods d))"
    and n1: "\<And>tpo. \<not> R ((s, None), tpo)"
    and n2: "\<And>a. \<not> R ((s, Some a), None)"
  shows "length (filter R (left_join (\<lambda>sa tp. case snd sa of None \<Rightarrow> False
                                      | Some a \<Rightarrow> a_period_id a = Some (tp_id tp))
                        (left_join_row (\<lambda>s a. s_id s = a_student_id a) s (attendance_tbl d))
                        (timetable_periods d)))
       = length (filter (\<lambda>a. a_student_id a = s_id s
                           \<and> (\<exists>tp \<in> set (timetable_periods d).
                                 a_period_id a = Some (tp_id tp) \<and> R ((s, Some a), Some tp)))
                   (attendance_tbl d))"
proof -
  let ?on2 = "\<lambda>(sa :: student \<times> attendance option) tp.
       case snd sa of None \<Rightarrow> False | Some a \<Rightarrow> a_period_id a = Some (tp_id tp)"
  let ?P = "timetable_periods d"
  let ?ms = "filter (\<lambda>a. s_id s = a_student_id a) (attendance_tbl d)"
  let ?Q = "\<lambda>a. \<exists>tp \<in> set ?P. a_period_id a = Some (tp_id tp) \<and> R ((s, Some a), Some tp)"
  have dP: "distinct ?P" using dp by (simp add: distinct_map)
  have row: "\<And>a. length (filter R (left_join_row ?on2 (s, Some a) ?P)) = (if ?Q a then 1 else 0)"
  proof -
    fix a
    have u: "\<And>y y'. y \<in> set ?P \<Longrightarrow> y' \<in> set ?P \<Longrightarrow> ?on2 (s, Some a) y
        \<Longrightarrow> ?on2 (s, Some a) y' \<Longrightarrow> y = y'"
    proof -
      fix y y' assume "y \<in> set ?P" "y' \<in> set ?P" "?on2 (s, Some a) y" "?on2 (s, Some a) y'"
      then show "y = y'"
        using distinct_map_eq [OF dp, of y y'] by simp
    qed
    show "length (filter R (left_join_row ?on2 (s, Some a) ?P)) = (if ?Q a then 1 else 0)"
      using left_join_row_count [of ?P ?on2 "(s, Some a)" R, OF dP u n2] by simp
  qed
  have "length (filter R (left_join ?on2
           (left_join_row (\<lambda>s a. s_id s = a_student_id a) s (attendance_tbl d)) ?P))
        = length (filter ?Q ?ms)"
  proof (cases "?ms = []")
    case True
    then have "left_join_row (\<lambda>s a. s_id s = a_student_id a) s (attendance_tbl d) = [(s, None)]"
      by (simp add: left_join_row_def)
    then have "left_join ?on2
           (left_join_row (\<lambda>s a. s_id s = a_student_id a) s (attendance_tbl d)) ?P
         = [((s, None), None)]"
      by (simp add: left_join_def left_join_row_def)
    with n1 True show ?thesis by simp
  next
    case False
    then have "left_join_row (\<lambda>s a. s_id s = a_student_id a) s (attendance_tbl d)
        = map (\<lambda>a. (s, Some a)) ?ms"
      by (simp add: left_join_row_def)
    then have "left_join ?on2
           (left_join_row (\<lambda>s a. s_id s = a_student_id a) s (attendance_tbl d)) ?P
         = concat (map (\<lambda>a. left_join_row ?on2 (s, Some a) ?P) ?ms)"
      by (simp add: left_join_def comp_def)
    then have "length (filter R (left_join ?on2
           (left_join_row (\<lambda>s a. s_id s = a_student_id a) s (attendance_tbl d)) ?P))
         = sum_list (map (\<lambda>a. length (filter R (left_join_row ?on2 (s, Some a) ?P))) ?ms)"
      by (simp add: length_filter_concat comp_def)
    also have "\<dots> = sum_list (map (\<lambda>a. if ?Q a then 1 else 0) ?ms)"
      by (simp only: row)
    also have "\<dots> = length (filter ?Q ?ms)"
      by (rule sum_list_indicator)
    finally show ?thesis .
  qed
  also have "filter ?Q ?ms = filter (\<lambda>a. a_student_id a = s_id s \<and> ?Q a) (attendance_tbl d)"
    by (simp add: conj_commute eq_commute)
  finally show ?thesis .
qed


lemma report_count:
  fixes R :: "report_join_row \<Rightarrow> bool"
  assumes ds: "distinct (map s_id (students d))"
    and dp: "distinct (map tp_id (timetable_periods d))"
    and s: "s \<in> set (students d)"
    and rs: "\<And>s' ao tpo. R ((s', ao), tpo) \<Longrightarrow> s_id s' = s_id s"
    and n1: "\<And>s' tpo. \<not> R ((s', None), tpo)"
    and n2: "\<And>s' a. \<not> R ((s', Some a), None)"
  shows "length (filter R (report_from d))
       = length (filter (\<lambda>a. a_student_id a = s_id s
                           \<and> (\<exists>tp \<in> set (timetable_periods d).
                                 a_period_id a = Some (tp_id tp) \<and> R ((s, Some a), Some tp)))
                   (attendance_tbl d))"
proof -
  let ?rows = "\<lambda>s. left_join (\<lambda>sa tp. case snd sa of None \<Rightarrow> False
                                      | Some a \<Rightarrow> a_period_id a = Some (tp_id tp))
                        (left_join_row (\<lambda>s a. s_id s = a_student_id a) s (attendance_tbl d))
                        (timetable_periods d)"
  let ?f = "\<lambda>s. length (filter R (?rows s))"
  have dS: "distinct (students d)" using ds by (simp add: distinct_map)
  have zero: "\<And>y. y \<in> set (students d) \<Longrightarrow> y \<noteq> s \<Longrightarrow> ?f y = 0"
  proof -
    fix y assume y: "y \<in> set (students d)" "y \<noteq> s"
    have ne: "s_id y \<noteq> s_id s"
      using distinct_map_eq [OF ds y(1) s] y(2) by blast
    have "\<And>a tp. \<not> R ((y, Some a), Some tp)"
      using rs ne by blast
    then have "filter (\<lambda>a. a_student_id a = s_id y
                           \<and> (\<exists>tp \<in> set (timetable_periods d).
                                 a_period_id a = Some (tp_id tp) \<and> R ((y, Some a), Some tp)))
                   (attendance_tbl d) = []"
      by (simp add: filter_empty_conv)
    then show "?f y = 0"
      using student_rows_count [of d R y, OF dp n1 n2] by simp
  qed
  have "length (filter R (report_from d)) = sum_list (map ?f (students d))"
    unfolding report_from_concat by (simp add: length_filter_concat comp_def)
  also have "\<dots> = ?f s"
    by (rule sum_list_single [OF dS s zero])
  also have "\<dots> = length (filter (\<lambda>a. a_student_id a = s_id s
                           \<and> (\<exists>tp \<in> set (timetable_periods d).
                                 a_period_id a = Some (tp_id tp) \<and> R ((s, Some a), Some tp)))
                   (attendance_tbl d))"
    by (rule student_rows_count [OF dp n1 n2])
  finally show ?thesis .
qed

lemma report_where_Some:
  "report_where c te b ((s, Some a), Some tp) \<longleftrightarrow>
     s_class_id s = c \<and> tp_teacher_id tp = Some te
     \<and> (case b of None \<Rightarrow> True | Some x \<Rightarrow> a_date a \<ge> x)"
  by (cases b) (simp_all add: report_where_def)

lemma report_where_no_period:
  "\<not> report_where c te b ((s, Some a), None)"
  by (simp add: report_where_def)

lemma report_where_no_attendance:
  "report_where c te b ((s, None), None) \<longleftrightarrow> s_class_id s = c"
  by (cases b) (simp_all add: report_where_def)

lemma group_key_id: "group_key ((s', ao), tpo) = group_key ((s, ao'), tpo') \<Longrightarrow> s_id s' = s_id s"
  by (simp add: group_key_def)

lemma group_key_student: "group_key ((s, ao), tpo) = (s_id s, s_roll_no s, s_student_name s)"
  by (simp add: group_key_def)

lemma count_status_filter:
  "count_status st rows =
     length (filter (\<lambda>r. case snd (fst r) of None \<Rightarrow> False | Some a \<Rightarrow> a_status a = st) rows)"
proof -
  have "(\<lambda>r :: report_join_row. case snd (fst r) of None \<Rightarrow> 0::nat
                         | Some a \<Rightarrow> if a_status a = st then 1 else 0)
      = (\<lambda>r. if (case snd (fst r) of None \<Rightarrow> False | Some a \<Rightarrow> a_status a = st) then 1 else 0)"
    by (rule ext) (simp split: option.split)
  then show ?thesis
    unfolding count_status_def by (simp only: sum_list_indicator)
qed

text \<open>A count over the group of a student is a count over the rows of the student
  taught by the teacher.\<close>

lemma group_count:
  assumes ds: "distinct (map s_id (students d))"
    and dp: "distinct (map tp_id (timetable_periods d))"
    and s: "s \<in> set (students d)" and c: "s_class_id s = classId"
  shows "length (filter (\<lambda>r. case snd (fst r) of None \<Rightarrow> False | Some a \<Rightarrow> M a)
           (filter (\<lambda>r. group_key r = (s_id s, s_roll_no s, s_student_name s))
              (filter (report_where classId teacherId bound) (report_from d))))
       = length (filter M (teacher_records d teacherId bound s))"
proof -
  let ?k = "(s_id s, s_roll_no s, s_student_name s)"
  let ?N = "\<lambda>r :: report_join_row. case snd (fst r) of None \<Rightarrow> False | Some a \<Rightarrow> M a"
  let ?R = "\<lambda>r. ?N r \<and> group_key r = ?k \<and> report_where classId teacherId bound r"
  have G: "filter ?N (filter (\<lambda>r. group_key r = ?k)
              (filter (report_where classId teacherId bound) (report_from d)))
         = filter ?R (report_from d)"
    by (simp add: conj_commute conj_left_commute)
  have rs: "\<And>s' ao tpo. ?R ((s', ao), tpo) \<Longrightarrow> s_id s' = s_id s"
    by (simp add: group_key_def)
  have n1: "\<And>s' tpo. \<not> ?R ((s', None), tpo)"
    by simp
  have n2: "\<And>s' a. \<not> ?R ((s', Some a), None)"
    by (simp add: report_where_no_period)
  have R: "\<And>a tp. ?R ((s, Some a), Some tp) \<longleftrightarrow>
      M a \<and> tp_teacher_id tp = Some teacherId
      \<and> (case bound of None \<Rightarrow> True | Some x \<Rightarrow> a_date a \<ge> x)"
    using c by (simp add: report_where_Some group_key_student)
  have "length (filter ?R (report_from d))
       = length (filter (\<lambda>a. a_student_id a = s_id s
                           \<and> (\<exists>tp \<in> set (timetable_periods d).
                                 a_period_id a = Some (tp_id tp) \<and> ?R ((s, Some a), Some tp)))
                   (attendance_tbl d))"
    by (rule report_count [of d s ?R, OF ds dp s rs n1 n2])
  also have "filter (\<lambda>a. a_student_id a = s_id s
                           \<and> (\<exists>tp \<in> set (timetable_periods d).
                                 a_period_id a = Some (tp_id tp) \<and> ?R ((s, Some a), Some tp)))
                   (attendance_tbl d)
       = filter M (teacher_records d teacherId bound s)"
    unfolding R teacher_records_def filter_filter
    by (rule filter_cong [OF refl]) blast
  finally show ?thesis unfolding G .
qed


lemma left_join_Some:
  "(x, Some y) \<in> set (left_join on xs ys) \<longleftrightarrow> x \<in> set xs \<and> y \<in> set ys \<and> on x y"
  unfolding left_join_set by simp

lemma left_join_None:
  "(x, None) \<in> set (left_join on xs ys) \<longleftrightarrow> x \<in> set xs \<and> (\<forall>y \<in> set ys. \<not> on x y)"
  unfolding left_join_set by simp

lemma left_join_fst:
  "(x, yo) \<in> set (left_join on xs ys) \<Longrightarrow> x \<in> set xs"
  by (cases yo) (simp_all add: left_join_Some left_join_None)

lemma report_from_student:
  assumes "((s', ao), tpo) \<in> set (report_from d)"
  shows "s' \<in> set (students d)"
proof -
  from assms have "(s', ao) \<in> set (left_join (\<lambda>s a. s_id s = a_student_id a)
      (students d) (attendance_tbl d))"
    unfolding report_from_def by (rule left_join_fst)
  then show ?thesis by (rule left_join_fst)
qed

lemma report_from_no_attendance:
  assumes "s \<in> set (students d)" and "\<forall>a \<in> set (attendance_tbl d). a_student_id a \<noteq> s_id s"
  shows "((s, None), None) \<in> set (report_from d)"
proof -
  have "(s, None) \<in> set (left_join (\<lambda>s a. s_id s = a_student_id a)
      (students d) (attendance_tbl d))"
    using assms by (simp add: left_join_None eq_commute)
  then show ?thesis
    unfolding report_from_def by (simp add: left_join_None)
qed

lemma report_from_record:
  assumes "s \<in> set (students d)" and "a \<in> set (attendance_tbl d)"
    and "a_student_id a = s_id s"
    and "tp \<in> set (timetable_periods d)" and "a_period_id a = Some (tp_id tp)"
  shows "((s, Some a), Some tp) \<in> set (report_from d)"
proof -
  have "(s, Some a) \<in> set (left_join (\<lambda>s a. s_id s = a_student_id a)
      (students d) (attendance_tbl d))"
    using assms by (simp add: left_join_Some)
  then show ?thesis
    unfolding report_from_def using assms by (simp add: left_join_Some)
qed

lemma filter_single:
  assumes "distinct xs" and "x \<in> set xs" and "P x"
    and "\<And>y. y \<in> set xs \<Longrightarrow> P y \<Longrightarrow> y = x"
  shows "filter P xs = [x]"
  using assms
proof (induction xs)
  case Nil
  then show ?case by simp
next
  case (Cons z zs)
  show ?case
  proof (cases "z = x")
    case True
    with Cons.prems(1) have nx: "x \<notin> set zs" by simp
    have "\<forall>y \<in> set zs. \<not> P y"
    proof
      fix y assume y: "y \<in> set zs"
      show "\<not> P y"
      proof
        assume "P y"
        with Cons.prems(4) [of y] y have "y = x" by simp
        with nx y show False by simp
      qed
    qed
    then have "filter P zs = []" by (simp add: filter_empty_conv)
    with True Cons.prems(3) show ?thesis by simp
  next
    case False
    then have np: "\<not> P z" using Cons.prems(4) [of z] by auto
    have "filter P zs = [x]"
    proof (rule Cons.IH)
      show "distinct zs" using Cons.prems(1) by simp
      show "x \<in> set zs" using Cons.prems(2) False by simp
      show "P x" by (rule Cons.prems(3))
      show "\<And>y. y \<in> set zs \<Longrightarrow> P y \<Longrightarrow> y = x" using Cons.prems(4) by simp
    qed
    with np show ?thesis by simp
  qed
qed

lemma report_group_roll: "r_roll_no (report_group k rows) = fst (snd k)"
  by (simp add: report_group_def Let_def)

lemma report_rows_of_roll:
  "filter (\<lambda>r. r_roll_no r = n) (report_query classId teacherId bound d) =
     map (\<lambda>k. report_group k (filter (\<lambda>r. group_key r = k)
                 (filter (report_where classId teacherId bound) (report_from d))))
       (filter (\<lambda>k. fst (snd k) = n)
          (sort_key (\<lambda>k. fst (snd k))
             (remdups (map group_key
                (filter (report_where classId teacherId bound) (report_from d))))))"
  unfolding report_query_def Let_def filter_map comp_def report_group_roll ..


lemma report_where_class:
  "report_where c te b ((s, ao), tpo) \<Longrightarrow> s_class_id s = c"
  by (simp add: report_where_def)

lemma student_has_group:
  assumes s: "s \<in> set (students d)" and c: "s_class_id s = classId"
    and ne: "teacher_records d teacherId bound s \<noteq> []
             \<or> (\<forall>a \<in> set (attendance_tbl d). a_student_id a \<noteq> s_id s)"
  shows "\<exists>r \<in> set (filter (report_where classId teacherId bound) (report_from d)).
           group_key r = (s_id s, s_roll_no s, s_student_name s)"
proof (cases "teacher_records d teacherId bound s \<noteq> []")
  case True
  then obtain a where "a \<in> set (teacher_records d teacherId bound s)"
    by (cases "teacher_records d teacherId bound s") auto
  then have a: "a \<in> set (attendance_tbl d)" "a_student_id a = s_id s"
    and b: "case bound of None \<Rightarrow> True | Some x \<Rightarrow> a_date a \<ge> x"
    and "\<exists>tp \<in> set (timetable_periods d).
            a_period_id a = Some (tp_id tp) \<and> tp_teacher_id tp = Some teacherId"
    unfolding teacher_records_def by simp_all
  then obtain tp where tp: "tp \<in> set (timetable_periods d)" "a_period_id a = Some (tp_id tp)"
    "tp_teacher_id tp = Some teacherId" by blast
  have "((s, Some a), Some tp) \<in> set (report_from d)"
    by (rule report_from_record [OF s a tp(1,2)])
  moreover have "report_where classId teacherId bound ((s, Some a), Some tp)"
    using c tp(3) b by (simp add: report_where_Some)
  ultimately have "((s, Some a), Some tp)
      \<in> set (filter (report_where classId teacherId bound) (report_from d))" by simp
  moreover have "group_key ((s, Some a), Some tp) = (s_id s, s_roll_no s, s_student_name s)"
    by (rule group_key_student)
  ultimately show ?thesis by (rule bexI [rotated])
next
  case False
  with ne have "\<forall>a \<in> set (attendance_tbl d). a_student_id a \<noteq> s_id s" by simp
  then have "((s, None), None) \<in> set (report_from d)"
    by (rule report_from_no_attendance [OF s])
  moreover have "report_where classId teacherId bound ((s, None), None)"
    using c by (simp add: report_where_no_attendance)
  ultimately have "((s, None), None)
      \<in> set (filter (report_where classId teacherId bound) (report_from d))" by simp
  moreover have "group_key ((s, None), None) = (s_id s, s_roll_no s, s_student_name s)"
    by (rule group_key_student)
  ultimately show ?thesis by (rule bexI [rotated])
qed

lemma keys_of_roll:
  assumes roll: "\<And>s'. s' \<in> set (students d) \<Longrightarrow> s_class_id s' = classId
                   \<Longrightarrow> s_roll_no s' = s_roll_no s \<Longrightarrow> s' = s"
    and s: "s \<in> set (students d)" and c: "s_class_id s = classId"
    and ne: "teacher_records d teacherId bound s \<noteq> []
             \<or> (\<forall>a \<in> set (attendance_tbl d). a_student_id a \<noteq> s_id s)"
  shows "filter (\<lambda>k. fst (snd k) = s_roll_no s)
          (sort_key (\<lambda>k. fst (snd k))
             (remdups (map group_key
                (filter (report_where classId teacherId bound) (report_from d)))))
         = [(s_id s, s_roll_no s, s_student_name s)]"
proof (rule filter_single)
  let ?F = "filter (report_where classId teacherId bound) (report_from d)"
  let ?k = "(s_id s, s_roll_no s, s_student_name s)"
  show "distinct (sort_key (\<lambda>k. fst (snd k)) (remdups (map group_key ?F)))"
    by simp
  from student_has_group [OF s c ne] obtain r where "r \<in> set ?F" "group_key r = ?k"
    by blast
  then have "?k \<in> group_key ` set ?F" by (metis imageI)
  then show "?k \<in> set (sort_key (\<lambda>k. fst (snd k)) (remdups (map group_key ?F)))"
    by simp
  show "fst (snd ?k) = s_roll_no s" by simp
  fix y assume y: "y \<in> set (sort_key (\<lambda>k. fst (snd k)) (remdups (map group_key ?F)))"
    and ry: "fst (snd y) = s_roll_no s"
  from y have "y \<in> group_key ` set ?F" by simp
  then obtain r where r: "r \<in> set ?F" "y = group_key r" by blast
  obtain s' ao tpo where rr: "r = ((s', ao), tpo)" by (metis prod.collapse)
  from r(1) rr have in_from: "((s', ao), tpo) \<in> set (report_from d)"
    and w: "report_where classId teacherId bound ((s', ao), tpo)" by simp_all
  have s': "s' \<in> set (students d)" by (rule report_from_student [OF in_from])
  have c': "s_class_id s' = classId" by (rule report_where_class [OF w])
  have yk: "y = (s_id s', s_roll_no s', s_student_name s')"
    unfolding r(2) rr by (rule group_key_student)
  with ry have "s_roll_no s' = s_roll_no s" by simp
  from roll [OF s' c' this] yk show "y = ?k" by simp
qed


lemma report_group_counts:
  assumes ds: "distinct (map s_id (students d))"
    and dp: "distinct (map tp_id (timetable_periods d))"
    and s: "s \<in> set (students d)" and c: "s_class_id s = classId"
  shows "report_group (s_id s, s_roll_no s, s_student_name s)
           (filter (\<lambda>r. group_key r = (s_id s, s_roll_no s, s_student_name s))
              (filter (report_where classId teacherId bound) (report_from d)))
       = (let recs = teacher_records d teacherId bound s;
              presentDays = length (filter (\<lambda>a. a_status a = ''P'') recs);
              absentDays = length (filter (\<lambda>a. a_status a = ''A'') recs);
              totalDays = length recs
          in \<lparr>r_roll_no = s_roll_no s, r_student_name = s_student_name s,
              r_total_days = totalDays, r_present_days = presentDays,
              r_absent_days = absentDays,
              r_attendance_percentage =
                (if totalDays > 0
                 then Some (round2 (of_nat presentDays * 100 / of_nat totalDays))
                 else None)\<rparr>)"
proof -
  let ?G = "filter (\<lambda>r. group_key r = (s_id s, s_roll_no s, s_student_name s))
              (filter (report_where classId teacherId bound) (report_from d))"
  let ?recs = "teacher_records d teacherId bound s"
  have "(\<lambda>r :: report_join_row. snd (fst r) \<noteq> None)
      = (\<lambda>r. case snd (fst r) of None \<Rightarrow> False | Some a \<Rightarrow> True)"
    by (rule ext) (simp split: option.split)
  then have "length (filter (\<lambda>r. snd (fst r) \<noteq> None) ?G)
      = length (filter (\<lambda>a. True) ?recs)"
    using group_count [OF ds dp s c, of "\<lambda>a. True" teacherId bound] by simp
  then have total: "length (filter (\<lambda>r. snd (fst r) \<noteq> None) ?G) = length ?recs"
    by simp
  have present: "count_status ''P'' ?G = length (filter (\<lambda>a. a_status a = ''P'') ?recs)"
    unfolding count_status_filter by (rule group_count [OF ds dp s c])
  have absent: "count_status ''A'' ?G = length (filter (\<lambda>a. a_status a = ''A'') ?recs)"
    unfolding count_status_filter by (rule group_count [OF ds dp s c])
  show ?thesis
    unfolding report_group_def Let_def total present absent by simp
qed

text \<open>
  Claim C1, as amended. The teacher has a period in the class, so the handler answers
  with a report. For a student of the class who has either no attendance row at all or
  at least one row in a period taught by the teacher and inside the date window, the
  report has exactly one row with the student's roll number. Its counts are taken over
  exactly the student's rows whose period is taught by the teacher and whose date is on
  or after the bound: the day seven days before now for \<open>week\<close>, thirty days for
  \<open>month\<close>, none for \<open>full\<close>. A row without a period is not counted. The present and
  absent days count the statuses \<open>P\<close> and \<open>A\<close>, and the percentage is
  \<open>presentDays * 100 / totalDays\<close> rounded to two decimals, or null without rows.
\<close>

theorem report_row_of_student:
  assumes ds: "distinct (map s_id (students d))"
    and dp: "distinct (map tp_id (timetable_periods d))"
    and roll: "\<forall>s' \<in> set (students d).
                 s_class_id s' = classId \<and> s_roll_no s' = s_roll_no s \<longrightarrow> s' = s"
    and t: "\<exists>tp \<in> set (timetable_periods d).
              tp_class_id tp = classId \<and> tp_teacher_id tp = Some teacherId
              \<and> tp_is_break tp = False"
    and s: "s \<in> set (students d)" and c: "s_class_id s = classId"
    and ne: "teacher_records d teacherId (report_date_bound period now_ms) s \<noteq> []
             \<or> (\<forall>a \<in> set (attendance_tbl d). a_student_id a \<noteq> s_id s)"
  shows "(\<exists>report. teacher_reports now_ms teacherId classId period d = Inr report
     \<and> filter (\<lambda>r. r_roll_no r = s_roll_no s) report =
        [(let recs = teacher_records d teacherId (report_date_bound period now_ms) s;
              presentDays = length (filter (\<lambda>a. a_status a = ''P'') recs);
              absentDays = length (filter (\<lambda>a. a_status a = ''A'') recs);
              totalDays = length recs
          in \<lparr>r_roll_no = s_roll_no s, r_student_name = s_student_name s,
              r_total_days = totalDays, r_present_days = presentDays,
              r_absent_days = absentDays,
              r_attendance_percentage =
                (if totalDays > 0
                 then Some (round2 (of_nat presentDays * 100 / of_nat totalDays))
                 else None)\<rparr>)])
   \<and> report_date_bound ''week'' now_ms = Some (now_ms div 86400000 - 7)
   \<and> report_date_bound ''month'' now_ms = Some (now_ms div 86400000 - 30)
   \<and> report_date_bound ''full'' now_ms = None"
proof (intro conjI)
  let ?b = "report_date_bound period now_ms"
  from teacherAssignment_Some [OF t] obtain x where
    "teacherAssignment (timetable_periods d) classId teacherId = Some x" ..
  then have 1: "teacher_reports now_ms teacherId classId period d
      = Inr (report_query classId teacherId ?b d)"
    by (simp add: teacher_reports_def)
  have roll': "\<And>s'. s' \<in> set (students d) \<Longrightarrow> s_class_id s' = classId
                   \<Longrightarrow> s_roll_no s' = s_roll_no s \<Longrightarrow> s' = s"
    using roll by simp
  have 2: "filter (\<lambda>r. r_roll_no r = s_roll_no s) (report_query classId teacherId ?b d)
      = [report_group (s_id s, s_roll_no s, s_student_name s)
           (filter (\<lambda>r. group_key r = (s_id s, s_roll_no s, s_student_name s))
              (filter (report_where classId teacherId ?b) (report_from d)))]"
    by (simp only: report_rows_of_roll keys_of_roll [OF roll' s c ne] list.map)
  show "\<exists>report. teacher_reports now_ms teacherId classId period d = Inr report
     \<and> filter (\<lambda>r. r_roll_no r = s_roll_no s) report =
        [(let recs = teacher_records d teacherId (report_date_bound period now_ms) s;
              presentDays = length (filter (\<lambda>a. a_status a = ''P'') recs);
              absentDays = length (filter (\<lambda>a. a_status a = ''A'') recs);
              totalDays = length recs
          in \<lparr>r_roll_no = s_roll_no s, r_student_name = s_student_name s,
              r_total_days = totalDays, r_present_days = presentDays,
              r_absent_days = absentDays,
              r_attendance_percentage =
                (if totalDays > 0
                 then Some (round2 (of_nat presentDays * 100 / of_nat totalDays))
                 else None)\<rparr>)]"
    by (intro exI [of _ "report_query classId teacherId ?b d"] conjI 1)
      (simp only: 2 report_group_counts [OF ds dp s c])
  show "report_date_bound ''week'' now_ms = Some (now_ms div 86400000 - 7)"
    by (simp add: report_date_bound_def)
  show "report_date_bound ''month'' now_ms = Some (now_ms div 86400000 - 30)"
    by (simp add: report_date_bound_def)
  show "report_date_bound ''full'' now_ms = None"
    by (simp add: report_date_bound_def)
qed


lemma ex_row_sel:
  "a_student_id (ex_row s dt p st) = s" "a_period_id (ex_row s dt p st) = p"
  "a_date (ex_row s dt p st) = dt" "a_status (ex_row s dt p st) = st"
  by (simp_all add: ex_row_def)

lemma ex_student_sel:
  "s_id ex_student = 1" "s_roll_no ex_student = 1" "s_class_id ex_student = 5"
  "s_student_name ex_student = ''Arjun Sharma''"
  "s_id ex_student2 = 2" "s_roll_no ex_student2 = 2" "s_class_id ex_student2 = 5"
  "s_student_name ex_student2 = ''Priya Patel''"
  by (simp_all add: ex_student_def ex_student2_def)

lemma ex_period_sel:
  "tp_id ex_period = 10" "tp_teacher_id ex_period = Some 2" "tp_class_id ex_period = 5"
  "tp_is_break ex_period = False"
  "tp_id ex_break = 11" "tp_teacher_id ex_break = None" "tp_class_id ex_break = 5"
  "tp_is_break ex_break = True"
  "tp_id ex_other = 12" "tp_teacher_id ex_other = Some 3" "tp_class_id ex_other = 5"
  "tp_is_break ex_other = False"
  by (simp_all add: ex_period_def ex_break_def ex_other_def)

lemma ex_db3_tbl:
  "attendance_tbl ex_db3 =
     [ex_row 1 20332 (Some 10) ''P'', ex_row 1 20331 (Some 10) ''P'',
      ex_row 1 20330 (Some 10) ''P'', ex_row 1 20329 (Some 10) ''A'',
      ex_row 1 20328 (Some 10) ''A'', ex_row 1 20300 (Some 10) ''P'',
      ex_row 1 20332 None ''A'', ex_row 2 20332 None ''P'']"
  "students ex_db3 = [ex_student, ex_student2]"
  "timetable_periods ex_db3 = [ex_period, ex_break, ex_other]"
  by (simp_all add: ex_db3_def ex_db_def)

lemma ex3_where:
  "filter (report_where 5 2 (Some 20325)) (report_from ex_db3) =
     [((ex_student, Some (ex_row 1 20332 (Some 10) ''P'')), Some ex_period),
      ((ex_student, Some (ex_row 1 20331 (Some 10) ''P'')), Some ex_period),
      ((ex_student, Some (ex_row 1 20330 (Some 10) ''P'')), Some ex_period),
      ((ex_student, Some (ex_row 1 20329 (Some 10) ''A'')), Some ex_period),
      ((ex_student, Some (ex_row 1 20328 (Some 10) ''A'')), Some ex_period)]"
  by (simp add: report_from_def left_join_def left_join_row_def ex_db3_tbl ex_row_sel
      ex_student_sel ex_period_sel report_where_def)


lemma ex3_assigned: "teacherAssignment (timetable_periods ex_db3) 5 2 = Some 10"
  by (simp add: teacherAssignment_def queryOne_def ex_db3_tbl ex_period_sel)

lemma ex3_bound: "report_date_bound ''week'' ex_now_0930 = Some 20325"
  by (simp add: report_date_bound_def ex_now_0930_def)

lemma round2_60: "round2 (of_nat 3 * 100 / of_nat 5) = 60"
  by (simp add: round2_def floor_eq_iff)

text \<open>
  Claim C1 as stated fails on the example of the week, for teacher 2 and class 5. By the
  claim, the row of student 1 would count six records, the manual one among them, and
  student 2 would have a row counting one manual record. The report has one row, for
  student 1, and it counts five records.
\<close>

theorem report_ignores_manual_rows:
  "teacher_reports ex_now_0930 2 5 ''week'' ex_db3 =
     Inr [\<lparr>r_roll_no = 1, r_student_name = ''Arjun Sharma'', r_total_days = 5,
           r_present_days = 3, r_absent_days = 2, r_attendance_percentage = Some 60\<rparr>]
   \<and> length (claimed_records ex_db3 2 (Some 20325) ex_student) = 6
   \<and> length (claimed_records ex_db3 2 (Some 20325) ex_student2) = 1"
proof (intro conjI)
  show "teacher_reports ex_now_0930 2 5 ''week'' ex_db3 =
     Inr [\<lparr>r_roll_no = 1, r_student_name = ''Arjun Sharma'', r_total_days = 5,
           r_present_days = 3, r_absent_days = 2, r_attendance_percentage = Some 60\<rparr>]"
    unfolding teacher_reports_def ex3_assigned ex3_bound report_query_def ex3_where Let_def
    by (simp add: group_key_def ex_student_sel report_group_def count_status_def ex_row_sel
        round2_60 [simplified])
  show "length (claimed_records ex_db3 2 (Some 20325) ex_student) = 6"
    by (simp add: claimed_records_def ex_db3_tbl ex_row_sel ex_student_sel ex_period_sel)
  show "length (claimed_records ex_db3 2 (Some 20325) ex_student2) = 1"
    by (simp add: claimed_records_def ex_db3_tbl ex_row_sel ex_student_sel ex_period_sel)
qed


lemma ex3_teacher_records:
  "teacher_records ex_db3 2 (Some 20325) ex_student =
     [ex_row 1 20332 (Some 10) ''P'', ex_row 1 20331 (Some 10) ''P'',
      ex_row 1 20330 (Some 10) ''P'', ex_row 1 20329 (Some 10) ''A'',
      ex_row 1 20328 (Some 10) ''A'']"
  by (simp add: teacher_records_def ex_db3_tbl ex_row_sel ex_student_sel ex_period_sel)

text \<open>The theorem on the example of the week: three present and two absent rows inside
  the window give 60 percent; the older row and the manual row are not counted.\<close>

theorem report_row_of_student_witness:
  "\<exists>report. teacher_reports ex_now_0930 2 5 ''week'' ex_db3 = Inr report
     \<and> filter (\<lambda>r. r_roll_no r = 1) report =
          [\<lparr>r_roll_no = 1, r_student_name = ''Arjun Sharma'', r_total_days = 5,
            r_present_days = 3, r_absent_days = 2, r_attendance_percentage = Some 60\<rparr>]"
proof -
  have ds: "distinct (map s_id (students ex_db3))"
    by (simp add: ex_db3_tbl ex_student_sel)
  have dp: "distinct (map tp_id (timetable_periods ex_db3))"
    by (simp add: ex_db3_tbl ex_period_sel)
  have roll: "\<forall>s' \<in> set (students ex_db3).
                 s_class_id s' = 5 \<and> s_roll_no s' = s_roll_no ex_student \<longrightarrow> s' = ex_student"
    by (simp add: ex_db3_tbl ex_student_sel)
  have t: "\<exists>tp \<in> set (timetable_periods ex_db3).
              tp_class_id tp = 5 \<and> tp_teacher_id tp = Some 2 \<and> tp_is_break tp = False"
    by (simp add: ex_db3_tbl ex_period_sel)
  have s: "ex_student \<in> set (students ex_db3)" by (simp add: ex_db3_tbl)
  have c: "s_class_id ex_student = 5" by (simp add: ex_student_sel)
  have ne: "teacher_records ex_db3 2 (report_date_bound ''week'' ex_now_0930) ex_student \<noteq> []
             \<or> (\<forall>a \<in> set (attendance_tbl ex_db3). a_student_id a \<noteq> s_id ex_student)"
    by (simp add: ex3_bound ex3_teacher_records)
  have v: "(let recs = teacher_records ex_db3 2 (report_date_bound ''week'' ex_now_0930) ex_student;
              presentDays = length (filter (\<lambda>a. a_status a = ''P'') recs);
              absentDays = length (filter (\<lambda>a. a_status a = ''A'') recs);
              totalDays = length recs
          in \<lparr>r_roll_no = 1, r_student_name = ''Arjun Sharma'',
              r_total_days = totalDays, r_present_days = presentDays,
              r_absent_days = absentDays,
              r_attendance_percentage =
                (if totalDays > 0
                 then Some (round2 (of_nat presentDays * 100 / of_nat totalDays))
                 else None)\<rparr>)
       = \<lparr>r_roll_no = 1, r_student_name = ''Arjun Sharma'', r_total_days = 5,
            r_present_days = 3, r_absent_days = 2, r_attendance_percentage = Some 60\<rparr>"
    by (simp add: ex3_bound ex3_teacher_records ex_row_sel ex_student_sel Let_def
        round2_60 [simplified])
  from report_row_of_student [OF ds dp roll t s c ne, THEN conjunct1]
  show ?thesis
    by (simp only: v ex_student_sel)
qed

section \<open>Properties of the initial grid\<close>

lemma fold_upd_const:
  "fold (\<lambda>x m. m(k x \<mapsto> c)) xs m0 y = (if y \<in> k ` set xs then Some c else m0 y)"
  by (induction xs arbitrary: m0) auto

lemma fold_upd_fun:
  "fold (\<lambda>x m. m(x \<mapsto> f x)) xs m0 y = (if y \<in> set xs then Some (f y) else m0 y)"
  by (induction xs arbitrary: m0) auto

lemma init_grid_lookup:
  "init_grid studs dates tps sid =
     (if sid \<in> s_id ` set studs then Some (init_dates tps dates) else None)"
  unfolding init_grid_def by (simp add: fold_upd_const)

lemma init_dates_lookup:
  "init_dates tps dates dt = (if dt \<in> set dates then Some (init_cells tps dt) else None)"
  unfolding init_dates_def by (simp add: fold_upd_fun)

lemma init_cells_lookup:
  "init_cells tps dt k =
     (if filter (\<lambda>period. tp_day_of_week period = adjustedDayOfWeek dt) tps = []
      then (if k = General then Some None else None)
      else (if k \<in> (\<lambda>period. PeriodKey (tp_id period))
                    ` set (filter (\<lambda>period. tp_day_of_week period = adjustedDayOfWeek dt) tps)
            then Some None else None))"
  unfolding init_cells_def Let_def by (simp add: fold_upd_const)


lemma adjustedDayOfWeek_range:
  "1 \<le> adjustedDayOfWeek dt \<and> adjustedDayOfWeek dt \<le> 7
   \<and> (adjustedDayOfWeek dt = 7 \<longleftrightarrow> date_getDay dt = 0)"
proof -
  have "0 \<le> date_getDay dt" "date_getDay dt < 7"
    unfolding date_getDay_def by simp_all
  then show ?thesis
    unfolding adjustedDayOfWeek_def Let_def by auto
qed





lemma ex_weekdays: "adjustedDayOfWeek 20332 = 1" "adjustedDayOfWeek 20333 = 2"
  by (simp_all add: adjustedDayOfWeek_def date_getDay_def)



lemma ex_period_day:
  "tp_day_of_week ex_period = 1" "tp_day_of_week ex_break = 1" "tp_day_of_week ex_other = 1"
  by (simp_all add: ex_period_def ex_break_def ex_other_def)




section \<open>Properties of the overlay\<close>

lemma grid_cell_cells:
  assumes "g sid = Some byDate"
  shows "(case byDate dt of None \<Rightarrow> Map.empty | Some c \<Rightarrow> c) k = grid_cell g sid dt k"
  using assms by (simp add: grid_cell_def split: option.split)

lemma overlay_record_cell:
  assumes "g (a_student_id r) = Some byDate"
  shows "grid_cell (overlay_record r g) sid dt k =
     (if sid = a_student_id r \<and> dt = a_date r
         \<and> k = overlay_key (case byDate (a_date r) of None \<Rightarrow> Map.empty | Some c \<Rightarrow> c) r
      then Some (Some (a_status r))
      else grid_cell g sid dt k)"
  using assms by (simp add: overlay_record_def grid_cell_def Let_def split: option.split)

lemma overlay_record_absent:
  assumes "g (a_student_id r) = None"
  shows "overlay_record r g = g"
  using assms by (simp add: overlay_record_def)

lemma overlay_key_cases:
  "overlay_key c r = General \<or> (\<exists>p. overlay_key c r = PeriodKey p \<and> c (PeriodKey p) \<noteq> None)"
  by (simp add: overlay_key_def split: option.split)

lemma overlay_record_period_cell:
  "grid_cell (overlay_record r g) sid dt (PeriodKey p) = None
     \<longleftrightarrow> grid_cell g sid dt (PeriodKey p) = None"
proof (cases "g (a_student_id r)")
  case None
  then show ?thesis by (simp add: overlay_record_absent)
next
  case (Some byDate)
  let ?c = "case byDate (a_date r) of None \<Rightarrow> Map.empty | Some c \<Rightarrow> c"
  let ?cond = "sid = a_student_id r \<and> dt = a_date r \<and> PeriodKey p = overlay_key ?c r"
  have cell: "grid_cell (overlay_record r g) sid dt (PeriodKey p) =
      (if ?cond then Some (Some (a_status r)) else grid_cell g sid dt (PeriodKey p))"
    by (rule overlay_record_cell [of g r byDate, OF Some])
  show ?thesis
  proof (cases ?cond)
    case True
    with overlay_key_cases [of ?c r] have "?c (PeriodKey p) \<noteq> None" by auto
    then have "grid_cell g (a_student_id r) (a_date r) (PeriodKey p) \<noteq> None"
      unfolding grid_cell_cells [of g "a_student_id r" byDate, OF Some] .
    with True have 1: "grid_cell g sid dt (PeriodKey p) \<noteq> None" by simp
    have "grid_cell (overlay_record r g) sid dt (PeriodKey p) = Some (Some (a_status r))"
      unfolding cell using True by (rule if_P)
    with 1 show ?thesis by simp
  next
    case False
    have "grid_cell (overlay_record r g) sid dt (PeriodKey p) = grid_cell g sid dt (PeriodKey p)"
      unfolding cell using False by (rule if_not_P)
    then show ?thesis by simp
  qed
qed

lemma overlay_record_student:
  "overlay_record r g sid = None \<longleftrightarrow> g sid = None"
  by (simp add: overlay_record_def Let_def split: option.split)

lemma fold_overlay_period_cell:
  "grid_cell (fold overlay_record rs g) sid dt (PeriodKey p) = None
     \<longleftrightarrow> grid_cell g sid dt (PeriodKey p) = None"
  by (induction rs arbitrary: g) (simp_all add: overlay_record_period_cell)

lemma fold_overlay_student:
  "fold overlay_record rs g sid = None \<longleftrightarrow> g sid = None"
  by (induction rs arbitrary: g) (simp_all add: overlay_record_student)


lemma attendanceRecords_row:
  assumes "r \<in> set (attendanceRecords d classId startDate endDate)"
  shows "r \<in> set (attendance_tbl d) \<and> startDate \<le> a_date r \<and> a_date r \<le> endDate
     \<and> (\<exists>st \<in> set (students d). s_id st = a_student_id r \<and> s_class_id st = classId)"
proof -
  let ?rows = "filter (\<lambda>r. s_class_id (snd r) = classId
                    \<and> a_date (fst r) \<ge> startDate \<and> a_date (fst r) \<le> endDate)
          (concat (map (\<lambda>a. map (\<lambda>st. (a, st))
                                (filter (\<lambda>st. a_student_id a = s_id st) (students d)))
                       (attendance_tbl d)))"
  from assms have "r \<in> fst ` set ?rows"
    unfolding attendanceRecords_def by simp
  then obtain x where x: "x \<in> set ?rows" and rx: "r = fst x" by blast
  from x have "fst x \<in> set (attendance_tbl d) \<and> startDate \<le> a_date (fst x)
     \<and> a_date (fst x) \<le> endDate
     \<and> (\<exists>st \<in> set (students d). s_id st = a_student_id (fst x) \<and> s_class_id st = classId)"
    by auto
  then show ?thesis unfolding rx .
qed

lemma students_of_class_set:
  "set (students_of_class d classId) = {s \<in> set (students d). s_class_id s = classId}"
  by (simp add: students_of_class_def)

lemma overlay_key_initial:
  assumes g: "g (a_student_id r) = Some byDate"
    and nz: "a_period_id r \<noteq> Some 0"
    and inv: "\<And>p. grid_cell g (a_student_id r) (a_date r) (PeriodKey p) = None
                \<longleftrightarrow> grid_cell g0 (a_student_id r) (a_date r) (PeriodKey p) = None"
  shows "overlay_key (case byDate (a_date r) of None \<Rightarrow> Map.empty | Some c \<Rightarrow> c) r =
     (case a_period_id r of
        None \<Rightarrow> General
      | Some p \<Rightarrow> if grid_cell g0 (a_student_id r) (a_date r) (PeriodKey p) \<noteq> None
                  then PeriodKey p else General)"
proof (cases "a_period_id r")
  case None
  then show ?thesis by (simp add: overlay_key_def)
next
  case (Some p)
  with nz have p: "p \<noteq> 0" by simp
  let ?c = "case byDate (a_date r) of None \<Rightarrow> Map.empty | Some c \<Rightarrow> c"
  have "?c (PeriodKey p) = None
      \<longleftrightarrow> grid_cell g0 (a_student_id r) (a_date r) (PeriodKey p) = None"
    unfolding grid_cell_cells [of g "a_student_id r" byDate, OF g] by (rule inv)
  with Some p show ?thesis by (simp add: overlay_key_def)
qed

text \<open>
  Claim C8. Take a record of the window for a student of the class, with a period id
  that is not zero or with none, at its place in the overlay. Its status is put into
  the cell of its student and date whose key is its period id when the initial grid
  has that cell, and \<^verbatim>\<open>general\<close> otherwise; a record without a period goes to
  \<^verbatim>\<open>general\<close>. No other cell changes in that step, and the grid that is built is the
  overlay of the later records onto the result.
\<close>

theorem overlay_places_record:
  assumes split: "attendanceRecords d classId startDate endDate = before @ r # after"
    and nz: "a_period_id r \<noteq> Some 0"
  shows "(let g0 = init_grid (students_of_class d classId) dates teacherPeriods;
              g = fold overlay_record before g0;
              key = (case a_period_id r of
                       None \<Rightarrow> General
                     | Some p \<Rightarrow>
                         if grid_cell g0 (a_student_id r) (a_date r) (PeriodKey p) \<noteq> None
                         then PeriodKey p else General)
          in grid_cell (overlay_record r g) (a_student_id r) (a_date r) key
               = Some (Some (a_status r))
           \<and> (\<forall>sid dt k. (sid, dt, k) \<noteq> (a_student_id r, a_date r, key)
                 \<longrightarrow> grid_cell (overlay_record r g) sid dt k = grid_cell g sid dt k)
           \<and> (a_period_id r = None \<longrightarrow> key = General)
           \<and> build_grid (students_of_class d classId) dates teacherPeriods
                (attendanceRecords d classId startDate endDate)
               = fold overlay_record after (overlay_record r g))"
proof -
  let ?init = "init_grid (students_of_class d classId) dates teacherPeriods"
  let ?g = "fold overlay_record before ?init"
  let ?key = "case a_period_id r of
                None \<Rightarrow> General
              | Some p \<Rightarrow> if grid_cell ?init (a_student_id r) (a_date r) (PeriodKey p) \<noteq> None
                          then PeriodKey p else General"
  have "r \<in> set (attendanceRecords d classId startDate endDate)"
    unfolding split by simp
  from attendanceRecords_row [OF this] obtain st where
    st: "st \<in> set (students d)" "s_id st = a_student_id r" "s_class_id st = classId"
    by blast
  then have "st \<in> set (students_of_class d classId)"
    by (simp add: students_of_class_set)
  then have "a_student_id r \<in> s_id ` set (students_of_class d classId)"
    using st(2) by (metis imageI)
  then have "?init (a_student_id r) \<noteq> None"
    by (simp add: init_grid_lookup)
  then have "?g (a_student_id r) \<noteq> None"
    unfolding fold_overlay_student .
  then obtain byDate where g: "?g (a_student_id r) = Some byDate" by blast
  have key: "overlay_key (case byDate (a_date r) of None \<Rightarrow> Map.empty | Some c \<Rightarrow> c) r = ?key"
    by (rule overlay_key_initial [of ?g r byDate ?init, OF g nz])
      (rule fold_overlay_period_cell)
  have cell: "\<And>sid dt k. grid_cell (overlay_record r ?g) sid dt k =
     (if sid = a_student_id r \<and> dt = a_date r \<and> k = ?key
      then Some (Some (a_status r)) else grid_cell ?g sid dt k)"
    using overlay_record_cell [of ?g r byDate, OF g] unfolding key .
  have 1: "grid_cell (overlay_record r ?g) (a_student_id r) (a_date r) ?key
      = Some (Some (a_status r))"
    unfolding cell by simp
  have 2: "\<forall>sid dt k. (sid, dt, k) \<noteq> (a_student_id r, a_date r, ?key)
      \<longrightarrow> grid_cell (overlay_record r ?g) sid dt k = grid_cell ?g sid dt k"
    unfolding cell by simp
  have 3: "a_period_id r = None \<longrightarrow> ?key = General"
    by simp
  have 4: "build_grid (students_of_class d classId) dates teacherPeriods
                (attendanceRecords d classId startDate endDate)
               = fold overlay_record after (overlay_record r ?g)"
    unfolding build_grid_def split by simp
  show ?thesis
    unfolding Let_def by (intro conjI 1 2 3 4)
qed


lemma ex2_records:
  "attendanceRecords ex_db2 5 20332 20338 =
     [ex_row 1 20332 (Some 10) ''P'', ex_row 1 20332 (Some 12) ''A'', ex_row 2 20332 None ''P'']"
  by (simp add: attendanceRecords_def ex_db2_tbl ex_row_sel ex_student_sel)

lemma ex2_students_of_class: "students_of_class ex_db2 5 = [ex_student, ex_student2]"
  by (simp add: students_of_class_def ex_db2_tbl ex_student_sel)

lemma ex2_teacher_periods:
  "teacherPeriodsOnSameDays (timetable_periods ex_db2) 2 5 = [ex_period]"
  by (simp add: teacherPeriodsOnSameDays_def ex_db2_tbl ex_period_sel)

lemma ex2_init_cells:
  "grid_cell (init_grid [ex_student, ex_student2] [20332] [ex_period]) 1 20332 (PeriodKey 10)
     = Some None"
  "grid_cell (init_grid [ex_student, ex_student2] [20332] [ex_period]) 1 20332 (PeriodKey 12)
     = None"
  by (simp_all add: grid_cell_def init_grid_lookup init_dates_lookup init_cells_lookup
      ex_student_sel ex_period_sel ex_period_day ex_weekdays)

text \<open>The theorem on the example, in the grid of teacher 2 for the Monday: the row of
  student 1 in period 10 goes to the cell of period 10, and the row in period 12 of
  teacher 3, which has no cell, goes to \<^verbatim>\<open>general\<close>.\<close>

theorem overlay_places_record_witness:
  "grid_cell (overlay_record (ex_row 1 20332 (Some 10) ''P'')
               (init_grid (students_of_class ex_db2 5) [20332]
                  (teacherPeriodsOnSameDays (timetable_periods ex_db2) 2 5)))
     1 20332 (PeriodKey 10) = Some (Some ''P'')
   \<and> grid_cell (overlay_record (ex_row 1 20332 (Some 12) ''A'')
               (overlay_record (ex_row 1 20332 (Some 10) ''P'')
                  (init_grid (students_of_class ex_db2 5) [20332]
                     (teacherPeriodsOnSameDays (timetable_periods ex_db2) 2 5))))
     1 20332 General = Some (Some ''A'')"
proof (intro conjI)
  let ?r1 = "ex_row 1 20332 (Some 10) ''P''"
  let ?r2 = "ex_row 1 20332 (Some 12) ''A''"
  let ?r3 = "ex_row 2 20332 None ''P''"
  have split: "attendanceRecords ex_db2 5 20332 20338 = [] @ ?r1 # [?r2, ?r3]"
    by (simp add: ex2_records)
  have nz: "a_period_id ?r1 \<noteq> Some 0" by (simp add: ex_row_sel)
  from overlay_places_record [OF split nz, of "[20332]"
      "teacherPeriodsOnSameDays (timetable_periods ex_db2) 2 5", unfolded Let_def,
      THEN conjunct1]
  show "grid_cell (overlay_record ?r1
               (init_grid (students_of_class ex_db2 5) [20332]
                  (teacherPeriodsOnSameDays (timetable_periods ex_db2) 2 5)))
     1 20332 (PeriodKey 10) = Some (Some ''P'')"
    by (simp add: ex_row_sel ex2_students_of_class ex2_teacher_periods ex2_init_cells)
next
  let ?r1 = "ex_row 1 20332 (Some 10) ''P''"
  let ?r2 = "ex_row 1 20332 (Some 12) ''A''"
  let ?r3 = "ex_row 2 20332 None ''P''"
  have split: "attendanceRecords ex_db2 5 20332 20338 = [?r1] @ ?r2 # [?r3]"
    by (simp add: ex2_records)
  have nz: "a_period_id ?r2 \<noteq> Some 0" by (simp add: ex_row_sel)
  from overlay_places_record [OF split nz, of "[20332]"
      "teacherPeriodsOnSameDays (timetable_periods ex_db2) 2 5", unfolded Let_def,
      THEN conjunct1]
  show "grid_cell (overlay_record ?r2 (overlay_record ?r1
               (init_grid (students_of_class ex_db2 5) [20332]
                  (teacherPeriodsOnSameDays (timetable_periods ex_db2) 2 5))))
     1 20332 General = Some (Some ''A'')"
    by (simp add: ex_row_sel ex2_students_of_class ex2_teacher_periods ex2_init_cells)
qed

section \<open>Properties of the calendar\<close>






























end
